theory Spec2Isabelle
  imports Complex_Main "HOL-Library.AList" "HOL-Library.Multiset" "HOL-Library.Log_Nat"
begin

section \<open>Settings (settings.py)\<close>

text \<open>
  The module-level tables of \<^verbatim>\<open>settings.py\<close>. Counters and values that the code
  keeps integral (levels, XP, amounts, enemy stats) are \<open>int\<close>. The floats of the
  player's and the weapons' stat blocks are modelled as exact reals; the enemy scaling
  and the drop rolls are modelled with the rounding of double-precision arithmetic
  (section on double precision below).
\<close>

definition base_xp_to_level :: int where
  "base_xp_to_level = 100"

definition xp_per_level_increase :: int where
  "xp_per_level_increase = 50"

record scaling =
  sc_damage :: real
  sc_cooldown :: real
  sc_area :: real
  sc_amount :: int

record weapon_data =
  wd_name :: string
  base_damage :: real
  base_cooldown :: real
  base_area :: real
  base_speed :: real
  base_amount :: int
  base_pierce :: "int option"
  base_radius :: "int option"
  wd_max_level :: int
  wd_scaling :: scaling
  wd_evolution :: "string option"
  wd_evolution_passive :: "string option"

text \<open>\<^verbatim>\<open>WEAPON_DATA\<close>, in the order of the dictionary's keys.\<close>

definition WEAPON_DATA :: "(string \<times> weapon_data) list" where
  "WEAPON_DATA =
    [(''whip'', \<lparr>wd_name = ''Whip'', base_damage = 20, base_cooldown = 1.5, base_area = 1,
        base_speed = 1, base_amount = 1, base_pierce = Some 999, base_radius = None,
        wd_max_level = 8,
        wd_scaling = \<lparr>sc_damage = 5, sc_cooldown = - 0.1, sc_area = 0.1, sc_amount = 0\<rparr>,
        wd_evolution = Some ''bloody_whip'', wd_evolution_passive = Some ''might_boost''\<rparr>),
     (''wand'', \<lparr>wd_name = ''Magic Wand'', base_damage = 10, base_cooldown = 1, base_area = 1,
        base_speed = 400, base_amount = 1, base_pierce = Some 1, base_radius = None,
        wd_max_level = 8,
        wd_scaling = \<lparr>sc_damage = 3, sc_cooldown = - 0.08, sc_area = 0, sc_amount = 1\<rparr>,
        wd_evolution = Some ''holy_wand'', wd_evolution_passive = Some ''cooldown_boost''\<rparr>),
     (''garlic'', \<lparr>wd_name = ''Garlic'', base_damage = 5, base_cooldown = 0.5, base_area = 1,
        base_speed = 0, base_amount = 1, base_pierce = Some 999, base_radius = Some 60,
        wd_max_level = 8,
        wd_scaling = \<lparr>sc_damage = 2, sc_cooldown = - 0.03, sc_area = 0.15, sc_amount = 0\<rparr>,
        wd_evolution = Some ''soul_eater'', wd_evolution_passive = Some ''regen_boost''\<rparr>),
     (''axe'', \<lparr>wd_name = ''Axe'', base_damage = 25, base_cooldown = 2, base_area = 1,
        base_speed = 300, base_amount = 1, base_pierce = Some 999, base_radius = None,
        wd_max_level = 8,
        wd_scaling = \<lparr>sc_damage = 8, sc_cooldown = - 0.12, sc_area = 0.1, sc_amount = 1\<rparr>,
        wd_evolution = Some ''death_spiral'', wd_evolution_passive = Some ''max_hp_boost''\<rparr>),
     (''knife'', \<lparr>wd_name = ''Knife'', base_damage = 8, base_cooldown = 0.3, base_area = 1,
        base_speed = 500, base_amount = 1, base_pierce = Some 1, base_radius = None,
        wd_max_level = 8,
        wd_scaling = \<lparr>sc_damage = 2, sc_cooldown = - 0.02, sc_area = 0, sc_amount = 1\<rparr>,
        wd_evolution = Some ''thousand_edge'', wd_evolution_passive = Some ''speed_boost''\<rparr>)]"

record evolution_data =
  ev_name :: string
  ev_base_weapon :: string
  ev_required_passive :: string
  ev_damage_mult :: "real option"

definition EVOLUTION_DATA :: "(string \<times> evolution_data) list" where
  "EVOLUTION_DATA =
    [(''bloody_whip'', \<lparr>ev_name = ''Bloody Whip'', ev_base_weapon = ''whip'',
        ev_required_passive = ''might_boost'', ev_damage_mult = Some 2\<rparr>),
     (''holy_wand'', \<lparr>ev_name = ''Holy Wand'', ev_base_weapon = ''wand'',
        ev_required_passive = ''cooldown_boost'', ev_damage_mult = Some 1.5\<rparr>),
     (''soul_eater'', \<lparr>ev_name = ''Soul Eater'', ev_base_weapon = ''garlic'',
        ev_required_passive = ''regen_boost'', ev_damage_mult = Some 1.8\<rparr>)]"

record passive_data =
  pd_stat :: string
  pd_value :: real
  pd_max_level :: int

definition PASSIVE_DATA :: "(string \<times> passive_data) list" where
  "PASSIVE_DATA =
    [(''might_boost'', \<lparr>pd_stat = ''might'', pd_value = 0.1, pd_max_level = 5\<rparr>),
     (''max_hp_boost'', \<lparr>pd_stat = ''max_hp'', pd_value = 20, pd_max_level = 5\<rparr>),
     (''regen_boost'', \<lparr>pd_stat = ''regen'', pd_value = 0.5, pd_max_level = 5\<rparr>),
     (''pickup_boost'', \<lparr>pd_stat = ''pickup_radius'', pd_value = 0.2, pd_max_level = 5\<rparr>),
     (''armor_boost'', \<lparr>pd_stat = ''armor'', pd_value = 1, pd_max_level = 5\<rparr>),
     (''speed_boost'', \<lparr>pd_stat = ''move_speed'', pd_value = 0.1, pd_max_level = 5\<rparr>),
     (''cooldown_boost'', \<lparr>pd_stat = ''cooldown_reduction'', pd_value = 0.08,
        pd_max_level = 5\<rparr>)]"

definition WORLD_WIDTH :: int where
  "WORLD_WIDTH = 2000"

definition WORLD_HEIGHT :: int where
  "WORLD_HEIGHT = 2000"

definition MAX_WEAPONS :: nat where
  "MAX_WEAPONS = 6"

definition MAX_PASSIVES :: nat where
  "MAX_PASSIVES = 6"

section \<open>Rectangles (pygame.Rect)\<close>

text \<open>pygame is a library. A \<^verbatim>\<open>Rect\<close> is four integers; \<^verbatim>\<open>colliderect\<close> follows
  pygame's test: rectangles of zero width or height collide with nothing, and otherwise
  the two must overlap strictly on both axes.\<close>

record rect =
  r_left :: int
  r_top :: int
  r_width :: int
  r_height :: int

definition colliderect :: "rect \<Rightarrow> rect \<Rightarrow> bool" where
  "colliderect a b =
     (if r_width a = 0 \<or> r_height a = 0 \<or> r_width b = 0 \<or> r_height b = 0 then False
      else min (r_left a) (r_left a + r_width a) < max (r_left b) (r_left b + r_width b)
         \<and> min (r_top a) (r_top a + r_height a) < max (r_top b) (r_top b + r_height b)
         \<and> max (r_left a) (r_left a + r_width a) > min (r_left b) (r_left b + r_width b)
         \<and> max (r_top a) (r_top a + r_height a) > min (r_top b) (r_top b + r_height b))"

text \<open>\<^verbatim>\<open>surface.get_rect(center=c)\<close> for a surface of the given size and an integer
  centre, and \<^verbatim>\<open>Rect.inflate\<close> (used with even, negative amounts only).\<close>

definition rect_centered :: "int \<times> int \<Rightarrow> int \<Rightarrow> int \<Rightarrow> rect" where
  "rect_centered c w h =
     \<lparr>r_left = fst c - w div 2, r_top = snd c - h div 2, r_width = w, r_height = h\<rparr>"

definition inflate :: "rect \<Rightarrow> int \<Rightarrow> int \<Rightarrow> rect" where
  "inflate r dx dy =
     \<lparr>r_left = r_left r - dx div 2, r_top = r_top r - dy div 2,
      r_width = r_width r + dx, r_height = r_height r + dy\<rparr>"

section \<open>Player (entities/player.py)\<close>

record player =
  p_max_hp :: real
  p_hp :: real
  p_move_speed :: real
  p_pickup_radius :: real
  p_might :: real
  p_cooldown_reduction :: real
  p_armor :: real
  p_regen :: real
  p_level :: int
  p_xp :: int
  p_xp_to_next_level :: int
  p_i_frames_duration :: real
  p_i_frames_timer :: real
  p_is_invincible :: bool
  p_damage_taken :: real
  p_dead :: bool
  p_unlimited_health :: bool
  p_hitbox :: rect

text \<open>\<^verbatim>\<open>Player.__init__\<close>: the stat block is copied from \<^verbatim>\<open>PLAYER_SETTINGS\<close>;
  the arguments are the start position and the \<^verbatim>\<open>unlimited_health\<close> entry of the
  cheat settings. The image is a square of side \<open>2 * size = 48\<close>.\<close>

definition Player_init :: "int \<times> int \<Rightarrow> bool \<Rightarrow> player" where
  "Player_init pos cheat = \<lparr>
     p_max_hp = 100, p_hp = 100, p_move_speed = 200, p_pickup_radius = 80,
     p_might = 1, p_cooldown_reduction = 0, p_armor = 0, p_regen = 0,
     p_level = 1, p_xp = 0, p_xp_to_next_level = base_xp_to_level div 2,
     p_i_frames_duration = 0.5, p_i_frames_timer = 0, p_is_invincible = False,
     p_damage_taken = 0, p_dead = False, p_unlimited_health = cheat,
     p_hitbox = inflate (rect_centered pos 48 48) (- 8) (- 8) \<rparr>"

text \<open>\<^verbatim>\<open>Game._init_entities\<close>: the player starts at the centre of the world.\<close>

definition start_pos :: "int \<times> int" where
  "start_pos = (WORLD_WIDTH div 2, WORLD_HEIGHT div 2)"

definition new_player :: player where
  "new_player = Player_init start_pos False"

definition heal :: "real \<Rightarrow> player \<Rightarrow> player" where
  "heal amount p = p\<lparr>p_hp := min (p_hp p + amount) (p_max_hp p)\<rparr>"

text \<open>\<^verbatim>\<open>Player.level_up\<close>: subtract the threshold, bump the level, recompute the
  threshold with Python's floor division, restore 10 percent of max HP. Returns True.\<close>

definition level_up :: "player \<Rightarrow> bool \<times> player" where
  "level_up p =
     (let p1 = p\<lparr>p_xp := p_xp p - p_xp_to_next_level p\<rparr>;
          p2 = p1\<lparr>p_level := p_level p1 + 1\<rparr>;
          base_xp = base_xp_to_level + (p_level p2 - 1) * xp_per_level_increase;
          p3 = p2\<lparr>p_xp_to_next_level := base_xp div 2\<rparr>
      in (True, heal (p_max_hp p3 * 0.1) p3))"

text \<open>\<^verbatim>\<open>Player.gain_xp\<close>: one \<^verbatim>\<open>if\<close>, not a loop.\<close>

definition gain_xp :: "int \<Rightarrow> player \<Rightarrow> bool \<times> player" where
  "gain_xp amount p =
     (let p1 = p\<lparr>p_xp := p_xp p + amount\<rparr>
      in if p_xp p1 \<ge> p_xp_to_next_level p1 then level_up p1 else (False, p1))"

text \<open>A run of \<^verbatim>\<open>gain_xp\<close> calls, one per tick that collected XP.\<close>

fun gain_xp_all :: "int list \<Rightarrow> player \<Rightarrow> player" where
  "gain_xp_all [] p = p"
| "gain_xp_all (a # as) p = gain_xp_all as (snd (gain_xp a p))"

text \<open>\<^verbatim>\<open>Player.apply_passive\<close>: an \<^verbatim>\<open>if\<close>/\<^verbatim>\<open>elif\<close> chain on the stat key;
  an unknown key changes nothing.\<close>

definition apply_passive :: "passive_data \<Rightarrow> player \<Rightarrow> player" where
  "apply_passive pd p =
     (let stat = pd_stat pd; v = pd_value pd in
      if stat = ''might'' then p\<lparr>p_might := p_might p + v\<rparr>
      else if stat = ''max_hp'' then p\<lparr>p_max_hp := p_max_hp p + v, p_hp := p_hp p + v\<rparr>
      else if stat = ''regen'' then p\<lparr>p_regen := p_regen p + v\<rparr>
      else if stat = ''pickup_radius'' then p\<lparr>p_pickup_radius := p_pickup_radius p * (1 + v)\<rparr>
      else if stat = ''armor'' then p\<lparr>p_armor := p_armor p + v\<rparr>
      else if stat = ''move_speed'' then p\<lparr>p_move_speed := p_move_speed p * (1 + v)\<rparr>
      else if stat = ''cooldown_reduction''
        then p\<lparr>p_cooldown_reduction := p_cooldown_reduction p + v\<rparr>
      else p)"

section \<open>Weapons (weapons/weapon_base.py, weapons/controller.py)\<close>

text \<open>\<^verbatim>\<open>CooldownTimer\<close> of \<^verbatim>\<open>utils.py\<close>: a duration in seconds and the time of the
  last use in milliseconds.\<close>

record cooldown_timer =
  ct_duration :: real
  ct_last_time :: real

definition CooldownTimer :: "real \<Rightarrow> cooldown_timer" where
  "CooldownTimer d = \<lparr>ct_duration = d, ct_last_time = - d * 1000\<rparr>"

text \<open>\<^verbatim>\<open>GarlicAura\<close>: the per-enemy timers are a dictionary from \<^verbatim>\<open>id(enemy)\<close> to
  the time (in seconds) of the enemy's last damage tick.\<close>

record garlic_aura =
  ga_damage :: real
  ga_radius :: int
  ga_tick_rate :: real
  ga_damage_timers :: "nat \<rightharpoonup> real"

text \<open>Python's \<^verbatim>\<open>int()\<close> on a float truncates toward zero.\<close>

definition py_int :: "real \<Rightarrow> int" where
  "py_int x = (if 0 \<le> x then \<lfloor>x\<rfloor> else \<lceil>x\<rceil>)"

text \<open>A weapon object. The subclass (\<^verbatim>\<open>WEAPON_CLASSES\<close>) is determined by
  \<open>weapon_id\<close>; \<open>w_homing\<close> is the field of \<^verbatim>\<open>WandWeapon\<close> and \<open>w_aura\<close> that of
  \<^verbatim>\<open>GarlicWeapon\<close>.\<close>

record weapon =
  weapon_id :: string
  w_data :: weapon_data
  w_level :: int
  w_max_level :: int
  w_damage :: real
  w_cooldown :: real
  w_area :: real
  w_speed :: real
  w_amount :: int
  w_pierce :: int
  w_size_multiplier :: real
  w_cooldown_timer :: cooldown_timer
  w_evolved :: bool
  w_evolution_id :: "string option"
  w_evolution_passive :: "string option"
  w_homing :: bool
  w_aura :: "garlic_aura option"

text \<open>\<^verbatim>\<open>Weapon._recalculate_stats\<close>, with the player it reads passed in.\<close>

definition recalculate_stats_base :: "player \<Rightarrow> weapon \<Rightarrow> weapon" where
  "recalculate_stats_base p w =
     (let sc = wd_scaling (w_data w);
          level_bonus = w_level w - 1;
          damage = base_damage (w_data w) + sc_damage sc * of_int level_bonus;
          cooldown = max 0.1 (base_cooldown (w_data w) + sc_cooldown sc * of_int level_bonus);
          area = base_area (w_data w) + sc_area sc * of_int level_bonus;
          amount = (if sc_amount sc > 0
                    then base_amount (w_data w) + (level_bonus div 2) * sc_amount sc
                    else base_amount (w_data w));
          size_multiplier = (if w_max_level w > 1
                    then 1 + of_int (w_level w - 1) / of_int (w_max_level w - 1) * 2
                    else 1);
          damage' = damage * p_might p;
          cooldown' = cooldown * (1 - p_cooldown_reduction p)
      in w\<lparr>w_damage := damage', w_cooldown := cooldown', w_area := area, w_amount := amount,
            w_size_multiplier := size_multiplier,
            w_cooldown_timer := CooldownTimer cooldown'\<rparr>)"

text \<open>\<^verbatim>\<open>GarlicWeapon._recalculate_stats\<close> calls the base method and then refreshes its
  aura, when it already has one; the other weapon classes inherit the base method.\<close>

definition recalculate_stats :: "player \<Rightarrow> weapon \<Rightarrow> weapon" where
  "recalculate_stats p w =
     (let w' = recalculate_stats_base p w in
      case w_aura w' of
        None \<Rightarrow> w'
      | Some a \<Rightarrow>
          (let r = (case base_radius (w_data w') of None \<Rightarrow> 60 | Some r \<Rightarrow> r)
           in w'\<lparr>w_aura := Some (a\<lparr>ga_radius := py_int (of_int r * w_area w' * w_size_multiplier w'),
                                    ga_damage := w_damage w',
                                    ga_tick_rate := w_cooldown w'\<rparr>)\<rparr>))"

text \<open>\<^verbatim>\<open>Weapon.__init__\<close> followed by the subclass constructor: an unknown id falls
  back to the whip's data; a garlic weapon creates its aura after the first
  recalculation.\<close>

definition Weapon_init :: "string \<Rightarrow> player \<Rightarrow> weapon" where
  "Weapon_init wid p =
     (let d = (case map_of WEAPON_DATA wid of None \<Rightarrow> the (map_of WEAPON_DATA ''whip'')
               | Some d \<Rightarrow> d);
          w0 = \<lparr>weapon_id = wid, w_data = d, w_level = 1, w_max_level = wd_max_level d,
                w_damage = base_damage d, w_cooldown = base_cooldown d, w_area = base_area d,
                w_speed = base_speed d, w_amount = base_amount d,
                w_pierce = (case base_pierce d of None \<Rightarrow> 1 | Some n \<Rightarrow> n),
                w_size_multiplier = 1,
                w_cooldown_timer = CooldownTimer (base_cooldown d),
                w_evolved = False, w_evolution_id = wd_evolution d,
                w_evolution_passive = wd_evolution_passive d,
                w_homing = False, w_aura = None\<rparr>;
          w1 = recalculate_stats p w0
      in if wid = ''garlic''
         then (let r = (case base_radius (w_data w1) of None \<Rightarrow> 60 | Some r \<Rightarrow> r)
               in w1\<lparr>w_aura := Some \<lparr>ga_damage = w_damage w1,
                        ga_radius = py_int (of_int r * w_area w1 * w_size_multiplier w1),
                        ga_tick_rate = w_cooldown w1, ga_damage_timers = Map.empty\<rparr>\<rparr>)
         else w1)"

text \<open>\<^verbatim>\<open>Weapon.level_up\<close>.\<close>

definition weapon_level_up :: "player \<Rightarrow> weapon \<Rightarrow> bool \<times> weapon" where
  "weapon_level_up p w =
     (if w_level w < w_max_level w
      then (True, recalculate_stats p (w\<lparr>w_level := w_level w + 1\<rparr>))
      else (False, w))"

fun level_up_times :: "nat \<Rightarrow> player \<Rightarrow> weapon \<Rightarrow> weapon" where
  "level_up_times 0 p w = w"
| "level_up_times (Suc n) p w = level_up_times n p (snd (weapon_level_up p w))"

text \<open>Python truthiness of an optional string: \<^verbatim>\<open>None\<close> and the empty string are
  false.\<close>

definition truthy :: "string option \<Rightarrow> bool" where
  "truthy s = (case s of None \<Rightarrow> False | Some t \<Rightarrow> t \<noteq> [])"


text \<open>\<^verbatim>\<open>Weapon.evolve\<close>, and \<^verbatim>\<open>WandWeapon.evolve\<close> which also turns homing on.\<close>

definition evolve_base :: "weapon \<Rightarrow> bool \<times> weapon" where
  "evolve_base w =
     (if \<not> truthy (w_evolution_id w) then (False, w)
      else case map_of EVOLUTION_DATA (the (w_evolution_id w)) of
        None \<Rightarrow> (False, w)
      | Some ed \<Rightarrow>
          (True, w\<lparr>w_evolved := True,
                   w_data := (w_data w)\<lparr>wd_name := ev_name ed\<rparr>,
                   w_damage := w_damage w
                      * (case ev_damage_mult ed of None \<Rightarrow> 1.5 | Some m \<Rightarrow> m)\<rparr>))"

definition evolve :: "weapon \<Rightarrow> bool \<times> weapon" where
  "evolve w =
     (if weapon_id w = ''wand''
      then (case evolve_base w of
              (True, w') \<Rightarrow> (True, w'\<lparr>w_homing := True\<rparr>)
            | (False, w') \<Rightarrow> (False, w'))
      else evolve_base w)"

record weapon_controller =
  wc_weapons :: "(string \<times> weapon) list"
  wc_passives :: "(string \<times> int) list"
  wc_max_weapons :: nat
  wc_max_passives :: nat

definition WeaponController_init :: weapon_controller where
  "WeaponController_init =
     \<lparr>wc_weapons = [], wc_passives = [], wc_max_weapons = MAX_WEAPONS,
      wc_max_passives = MAX_PASSIVES\<rparr>"


text \<open>\<^verbatim>\<open>WeaponController._update_weapon_stats\<close>.\<close>

definition update_weapon_stats :: "player \<Rightarrow> weapon_controller \<Rightarrow> weapon_controller" where
  "update_weapon_stats p c =
     c\<lparr>wc_weapons := map (\<lambda>(wid, w). (wid, recalculate_stats p w)) (wc_weapons c)\<rparr>"

text \<open>\<^verbatim>\<open>WeaponController.add_passive\<close>: the player's stat block changes first, then
  every weapon is recomputed.\<close>

definition add_passive ::
  "string \<Rightarrow> player \<Rightarrow> weapon_controller \<Rightarrow> bool \<times> player \<times> weapon_controller" where
  "add_passive pid p c =
     (case map_of PASSIVE_DATA pid of
        None \<Rightarrow> (False, p, c)
      | Some pd \<Rightarrow>
         (case map_of (wc_passives c) pid of
            Some lvl \<Rightarrow>
              if lvl < pd_max_level pd
              then (let c1 = c\<lparr>wc_passives := AList.update pid (lvl + 1) (wc_passives c)\<rparr>;
                        p1 = apply_passive pd p
                    in (True, p1, update_weapon_stats p1 c1))
              else (False, p, c)
          | None \<Rightarrow>
              if length (wc_passives c) \<ge> wc_max_passives c then (False, p, c)
              else (let c1 = c\<lparr>wc_passives := AList.update pid 1 (wc_passives c)\<rparr>;
                        p1 = apply_passive pd p
                    in (True, p1, update_weapon_stats p1 c1))))"


definition evolve_weapon :: "string \<Rightarrow> weapon_controller \<Rightarrow> bool \<times> weapon_controller" where
  "evolve_weapon wid c =
     (case map_of (wc_weapons c) wid of
        Some w \<Rightarrow>
          (let (r, w') = evolve w
           in (r, c\<lparr>wc_weapons := AList.update wid w' (wc_weapons c)\<rparr>))
      | None \<Rightarrow> (False, c))"

section \<open>Closed forms of the specification\<close>

text \<open>The closed forms of the specification, section 4.2, as functions of the weapon's
  table entry, the level and the player's modifiers.\<close>

definition spec_damage :: "weapon_data \<Rightarrow> int \<Rightarrow> real \<Rightarrow> real" where
  "spec_damage d L might = (base_damage d + sc_damage (wd_scaling d) * of_int (L - 1)) * might"

definition spec_cooldown :: "weapon_data \<Rightarrow> int \<Rightarrow> real \<Rightarrow> real" where
  "spec_cooldown d L cdr =
     max 0.1 (base_cooldown d + sc_cooldown (wd_scaling d) * of_int (L - 1)) * (1 - cdr)"

definition spec_area :: "weapon_data \<Rightarrow> int \<Rightarrow> real" where
  "spec_area d L = base_area d + sc_area (wd_scaling d) * of_int (L - 1)"

definition spec_amount :: "weapon_data \<Rightarrow> int \<Rightarrow> int" where
  "spec_amount d L =
     (if sc_amount (wd_scaling d) > 0
      then base_amount d + \<lfloor>of_int (L - 1) / (2::real)\<rfloor> * sc_amount (wd_scaling d)
      else base_amount d)"

definition closed_form :: "player \<Rightarrow> weapon \<Rightarrow> bool" where
  "closed_form p w =
     (w_damage w = spec_damage (w_data w) (w_level w) (p_might p)
      \<and> w_cooldown w = spec_cooldown (w_data w) (w_level w) (p_cooldown_reduction p)
      \<and> w_area w = spec_area (w_data w) (w_level w)
      \<and> w_amount w = spec_amount (w_data w) (w_level w))"

definition evolution_mult :: "weapon \<Rightarrow> real" where
  "evolution_mult w =
     (case map_of EVOLUTION_DATA (the (w_evolution_id w)) of
        None \<Rightarrow> 1
      | Some ed \<Rightarrow> (case ev_damage_mult ed of None \<Rightarrow> 1.5 | Some m \<Rightarrow> m))"

definition unevolved_damage :: "player \<Rightarrow> weapon \<Rightarrow> real" where
  "unevolved_damage p w =
     (base_damage (w_data w) + sc_damage (wd_scaling (w_data w)) * of_int (w_level w - 1))
       * p_might p"

definition whip8 :: weapon where
  "whip8 = level_up_times 7 new_player (Weapon_init ''whip'' new_player)"

definition ctrl8 :: weapon_controller where
  "ctrl8 = snd (evolve_weapon ''whip''
     (WeaponController_init\<lparr>wc_weapons := [(''whip'', whip8)]\<rparr>))"

section \<open>Upgrade selection (weapons/controller.py)\<close>

text \<open>The \<^verbatim>\<open>random\<close> module is a library: its generator is modelled as the list of
  the raw draws it will hand out, in order. \<^verbatim>\<open>randbelow(n)\<close> takes the next draw
  reduced modulo \<open>n\<close>; an exhausted list keeps drawing 0.\<close>

definition randbelow :: "nat \<Rightarrow> nat list \<Rightarrow> nat \<times> nat list" where
  "randbelow n rs = (case rs of [] \<Rightarrow> (0, []) | r # rs' \<Rightarrow> (r mod n, rs'))"

text \<open>\<^verbatim>\<open>random.shuffle\<close>: for \<open>i\<close> from \<open>len - 1\<close> down to 1, swap the entries at
  \<open>i\<close> and at \<open>randbelow(i + 1)\<close>.\<close>

fun shuffle_loop :: "nat \<Rightarrow> 'a list \<Rightarrow> nat list \<Rightarrow> 'a list \<times> nat list" where
  "shuffle_loop 0 xs rs = (xs, rs)"
| "shuffle_loop (Suc i) xs rs =
     (let (j, rs') = randbelow (Suc i + 1) rs
      in shuffle_loop i (xs[Suc i := xs ! j, j := xs ! Suc i]) rs')"

definition shuffle :: "'a list \<Rightarrow> nat list \<Rightarrow> 'a list \<times> nat list" where
  "shuffle xs rs = shuffle_loop (length xs - 1) xs rs"

text \<open>\<^verbatim>\<open>random.choice(seq)\<close> is \<^verbatim>\<open>seq[randbelow(len(seq))]\<close>; the caller only uses it
  on a non-empty list.\<close>

definition choice :: "'a list \<Rightarrow> nat list \<Rightarrow> 'a \<times> nat list" where
  "choice xs rs = (let (j, rs') = randbelow (length xs) rs in (xs ! j, rs'))"

type_synonym upgrade_option = "string \<times> string \<times> bool \<times> int"


text \<open>The padding loop: \<^verbatim>\<open>while len(options) < count and possible\<close>.\<close>

function pad_options ::
  "upgrade_option list \<Rightarrow> nat \<Rightarrow> upgrade_option list \<Rightarrow> nat list \<Rightarrow> upgrade_option list" where
  "pad_options options cnt possible rs =
     (if length options < cnt \<and> possible \<noteq> []
      then (let (x, rs') = choice possible rs
            in pad_options (options @ [x]) cnt possible rs')
      else options)"
  by pat_completeness auto
termination
  by (relation "measure (\<lambda>(options, cnt, possible, rs). cnt - length options)") auto

declare pad_options.simps [simp del]

text \<open>The part of the method after the pool is built: shuffle, take the first \<open>count\<close>,
  pad.\<close>

definition select_options :: "upgrade_option list \<Rightarrow> nat \<Rightarrow> nat list \<Rightarrow> upgrade_option list" where
  "select_options possible cnt rs =
     (let (possible', rs') = shuffle possible rs;
          options = take cnt possible'
      in pad_options options cnt possible' rs')"










section \<open>Double-precision arithmetic\<close>

text \<open>A Python float is an IEEE 754 double, and each arithmetic operation returns the
  exact result rounded to the nearest double, ties to even. \<open>fl\<close> is that rounding on
  the reals: \<open>exponent a\<close> is the \<open>e\<close> with \<open>2^e \<le> a < 2^(e+1)\<close>, the spacing of the
  doubles around \<open>a\<close> is \<open>2^(e-52)\<close> (with \<open>e\<close> no less than \<open>-1022\<close>, which covers the
  subnormal range), and the value is rounded to a multiple of that spacing. Overflow to
  infinity is not modelled: the model is the code's arithmetic for magnitudes below
  \<open>2^1024\<close>.\<close>

definition rnd_even :: "real \<Rightarrow> int" where
  "rnd_even q =
     (let f = \<lfloor>q\<rfloor>; d = q - of_int f
      in if d < 1 / 2 then f else if 1 / 2 < d then f + 1 else if even f then f else f + 1)"

definition exponent :: "real \<Rightarrow> int" where
  "exponent a =
     (if 1 \<le> a then int (floorlog 2 (nat \<lfloor>a\<rfloor>)) - 1
      else - int (floorlog 2 (nat (\<lceil>1 / a\<rceil> - 1))))"

definition pow2 :: "int \<Rightarrow> real" where
  "pow2 e = (if 0 \<le> e then 2 ^ nat e else 1 / 2 ^ nat (- e))"

definition fl :: "real \<Rightarrow> real" where
  "fl x =
     (if x = 0 then 0
      else (let a = \<bar>x\<bar>;
                e = max (exponent a) (- 1022);
                g = pow2 (e - 52)
            in sgn x * of_int (rnd_even (a / g)) * g))"

text \<open>\<^verbatim>\<open>math.pi\<close>, the double nearest to \<open>\<pi>\<close>.\<close>

definition math_pi :: real where
  "math_pi = 884279719003555 / 281474976710656"

section \<open>Enemies (entities/enemy.py) and the spawner (systems/spawner.py)\<close>

record enemy_data =
  ed_size :: int
  ed_hp :: int
  ed_damage :: int
  ed_speed :: real
  ed_xp_value :: int
  ed_spawn_weight :: int
  ed_spawn_count :: "int option"
  ed_special :: "string option"

definition ENEMY_DATA :: "(string \<times> enemy_data) list" where
  "ENEMY_DATA =
    [(''chaser'', \<lparr>ed_size = 16, ed_hp = 10, ed_damage = 10, ed_speed = 80, ed_xp_value = 1,
        ed_spawn_weight = 50, ed_spawn_count = None, ed_special = None\<rparr>),
     (''tank'', \<lparr>ed_size = 24, ed_hp = 50, ed_damage = 20, ed_speed = 40, ed_xp_value = 5,
        ed_spawn_weight = 20, ed_spawn_count = None, ed_special = None\<rparr>),
     (''swarm'', \<lparr>ed_size = 12, ed_hp = 5, ed_damage = 5, ed_speed = 100, ed_xp_value = 1,
        ed_spawn_weight = 30, ed_spawn_count = Some 5, ed_special = None\<rparr>),
     (''ghost'', \<lparr>ed_size = 20, ed_hp = 15, ed_damage = 15, ed_speed = 70, ed_xp_value = 3,
        ed_spawn_weight = 15, ed_spawn_count = None, ed_special = Some ''phase''\<rparr>),
     (''bat'', \<lparr>ed_size = 14, ed_hp = 8, ed_damage = 8, ed_speed = 120, ed_xp_value = 2,
        ed_spawn_weight = 25, ed_spawn_count = None, ed_special = Some ''zigzag''\<rparr>),
     (''boss'', \<lparr>ed_size = 48, ed_hp = 500, ed_damage = 30, ed_speed = 50, ed_xp_value = 50,
        ed_spawn_weight = 0, ed_spawn_count = None, ed_special = None\<rparr>)]"

text \<open>The float literal \<^verbatim>\<open>0.05\<close> is the double nearest to \<open>1/20\<close>.\<close>

definition difficulty_hp_scale :: real where
  "difficulty_hp_scale = fl 0.05"

definition boss_spawn_interval :: real where
  "boss_spawn_interval = 600"

text \<open>An enemy sprite. \<open>e_id\<close> is the object's identity (\<^verbatim>\<open>id(enemy)\<close>); \<open>e_hp\<close> is
  real because weapon damage is.\<close>

record enemy =
  e_id :: nat
  e_type :: string
  e_difficulty_mult :: real
  e_max_hp :: int
  e_hp :: real
  e_damage :: int
  e_speed :: real
  e_xp_value :: int
  e_size :: int
  e_pos :: "real \<times> real"
  e_rect :: rect
  e_hitbox :: rect
  e_damage_cooldown :: real

text \<open>\<^verbatim>\<open>ENEMY_DATA.get(enemy_type, ENEMY_DATA['chaser'])\<close>.\<close>

definition enemy_data_of :: "string \<Rightarrow> enemy_data" where
  "enemy_data_of enemy_type =
     (case map_of ENEMY_DATA enemy_type of
        None \<Rightarrow> the (map_of ENEMY_DATA ''chaser'')
      | Some d \<Rightarrow> d)"

text \<open>\<^verbatim>\<open>Enemy.__init__\<close>. The arguments are the object's identity, the position, the
  integer pixel centre pygame places the image's rectangle at, the type and the
  difficulty multiplier (a double). Every operation rounds, and both stats are
  converted with \<^verbatim>\<open>int()\<close>.\<close>

definition Enemy_init ::
  "nat \<Rightarrow> real \<times> real \<Rightarrow> int \<times> int \<Rightarrow> string \<Rightarrow> real \<Rightarrow> enemy" where
  "Enemy_init eid pos center enemy_type difficulty_mult =
     (let d = enemy_data_of enemy_type;
          max_hp = py_int (fl (of_int (ed_hp d) * difficulty_mult));
          r = rect_centered center (ed_size d * 2) (ed_size d * 2)
      in \<lparr>e_id = eid, e_type = enemy_type, e_difficulty_mult = difficulty_mult,
          e_max_hp = max_hp, e_hp = of_int max_hp,
          e_damage = py_int (fl (of_int (ed_damage d)
                        * fl (1 + fl (fl (difficulty_mult - 1) * 0.5)))),
          e_speed = ed_speed d, e_xp_value = ed_xp_value d, e_size = ed_size d,
          e_pos = pos, e_rect = r, e_hitbox = inflate r (- 4) (- 4),
          e_damage_cooldown = 0\<rparr>)"

text \<open>\<^verbatim>\<open>create_enemy\<close>: every class of the factory calls \<^verbatim>\<open>Enemy.__init__\<close> with its
  own type; an unknown type gives a \<^verbatim>\<open>Chaser\<close>.\<close>

definition create_enemy ::
  "string \<Rightarrow> nat \<Rightarrow> real \<times> real \<Rightarrow> int \<times> int \<Rightarrow> real \<Rightarrow> enemy" where
  "create_enemy enemy_type eid pos center difficulty_mult =
     (if enemy_type \<in> set (map fst ENEMY_DATA)
      then Enemy_init eid pos center enemy_type difficulty_mult
      else Enemy_init eid pos center ''chaser'' difficulty_mult)"

text \<open>\<^verbatim>\<open>EnemySpawner._get_difficulty_multiplier\<close> at spawner time \<open>game_time\<close>.\<close>

definition get_difficulty_multiplier :: "real \<Rightarrow> real" where
  "get_difficulty_multiplier game_time =
     (let minutes = fl (game_time / 60);
          hp_mult = fl (1 + fl (difficulty_hp_scale * minutes))
      in hp_mult)"

text \<open>\<^verbatim>\<open>EnemySpawner.spawn_enemy\<close> and \<^verbatim>\<open>spawn_boss\<close> at spawner time \<open>game_time\<close>. The
  type and the position are random draws of the caller and are passed in; the extra
  copies of a swarm are created by the same call with the same type and multiplier.\<close>

definition spawn_enemy ::
  "real \<Rightarrow> nat \<Rightarrow> real \<times> real \<Rightarrow> int \<times> int \<Rightarrow> string \<Rightarrow> enemy" where
  "spawn_enemy game_time eid pos center enemy_type =
     create_enemy enemy_type eid pos center (get_difficulty_multiplier game_time)"

definition spawn_boss :: "real \<Rightarrow> nat \<Rightarrow> real \<times> real \<Rightarrow> int \<times> int \<Rightarrow> enemy" where
  "spawn_boss game_time eid pos center =
     create_enemy ''boss'' eid pos center (fl (get_difficulty_multiplier game_time * 1.5))"

text \<open>\<^verbatim>\<open>Enemy.take_damage\<close>: True when the enemy died (and removed itself from its
  groups). Knock-back and the flash do not touch the fields modelled here.\<close>

definition take_damage :: "real \<Rightarrow> enemy \<Rightarrow> bool \<times> enemy" where
  "take_damage damage e =
     (let e' = e\<lparr>e_hp := e_hp e - damage\<rparr> in (e_hp e' \<le> 0, e'))"

definition can_damage :: "enemy \<Rightarrow> bool" where
  "can_damage e = (e_damage_cooldown e \<le> 0)"

definition reset_damage_cooldown :: "enemy \<Rightarrow> enemy" where
  "reset_damage_cooldown e = e\<lparr>e_damage_cooldown := 0.5\<rparr>"

text \<open>The damage-cooldown part of \<^verbatim>\<open>Enemy.update\<close>.\<close>

definition update_damage_cooldown :: "real \<Rightarrow> enemy \<Rightarrow> enemy" where
  "update_damage_cooldown dt e =
     (if e_damage_cooldown e > 0 then e\<lparr>e_damage_cooldown := e_damage_cooldown e - dt\<rparr>
      else e)"

record drop_info =
  di_xp_value :: int
  di_pos :: "real \<times> real"

definition get_drop_info :: "enemy \<Rightarrow> drop_info" where
  "get_drop_info e = \<lparr>di_xp_value = e_xp_value e, di_pos = e_pos e\<rparr>"

section \<open>Drops (entities/drops.py)\<close>

text \<open>The three drop classes with the fields their constructors set: position, and for
  a gem its tier, value and the phase of its bobbing animation, for a health pickup its
  value.\<close>

datatype drop =
  ExperienceGem "real \<times> real" string int real
  | HealthPickup "real \<times> real" int
  | Chest "real \<times> real"

definition health_pickup_value :: int where
  "health_pickup_value = 20"

definition health_pickup_drop_chance :: real where
  "health_pickup_drop_chance = fl 0.02"

definition chest_drop_chance :: real where
  "chest_drop_chance = fl 0.005"

text \<open>\<^verbatim>\<open>random.random()\<close> hands out the next draw of a list of doubles in \<open>[0, 1)\<close> (an
  exhausted list keeps drawing 0), and \<^verbatim>\<open>random.uniform(a, b)\<close> is
  \<^verbatim>\<open>a + (b - a) * random()\<close>.\<close>

definition random_random :: "real list \<Rightarrow> real \<times> real list" where
  "random_random us = (case us of [] \<Rightarrow> (0, []) | u # us' \<Rightarrow> (u, us'))"

definition uniform :: "real \<Rightarrow> real \<Rightarrow> real list \<Rightarrow> real \<times> real list" where
  "uniform a b us = (let (u, us') = random_random us in (fl (a + fl (fl (b - a) * u)), us'))"

text \<open>The tier of a gem follows its value.\<close>

definition gem_tier :: "int \<Rightarrow> string" where
  "gem_tier v = (if v \<ge> 25 then ''large'' else if v \<ge> 5 then ''medium'' else ''small'')"

text \<open>\<^verbatim>\<open>ExperienceGem.__init__\<close>: the constructor draws the phase of the bobbing
  animation, \<^verbatim>\<open>random.uniform(0, math.pi * 2)\<close>.\<close>

definition ExperienceGem_init :: "real \<times> real \<Rightarrow> int \<Rightarrow> real list \<Rightarrow> drop \<times> real list" where
  "ExperienceGem_init pos v us =
     (let (bob_offset, us') = uniform 0 (fl (math_pi * 2)) us
      in (ExperienceGem pos (gem_tier v) v bob_offset, us'))"

text \<open>The \<^verbatim>\<open>DropManager\<close> owns the drop group, a list of drops in creation order.
  The constructors of a health pickup and of a chest draw nothing.\<close>

definition spawn_xp_gem ::
  "real \<times> real \<Rightarrow> int \<Rightarrow> real list \<Rightarrow> drop list \<Rightarrow> drop list \<times> real list" where
  "spawn_xp_gem pos v us drop_group =
     (let (gem, us') = ExperienceGem_init pos v us in (drop_group @ [gem], us'))"

definition spawn_health_pickup :: "real \<times> real \<Rightarrow> drop list \<Rightarrow> drop list" where
  "spawn_health_pickup pos drop_group = drop_group @ [HealthPickup pos health_pickup_value]"

definition spawn_chest :: "real \<times> real \<Rightarrow> drop list \<Rightarrow> drop list" where
  "spawn_chest pos drop_group = drop_group @ [Chest pos]"

text \<open>\<^verbatim>\<open>DropManager.spawn_enemy_drops\<close>: the gem always (with its draw), then the two
  independent rolls, each with its own jitter added to the position.\<close>

definition spawn_enemy_drops :: "enemy \<Rightarrow> real list \<Rightarrow> drop list \<Rightarrow> drop list \<times> real list" where
  "spawn_enemy_drops e us drop_group =
     (let info = get_drop_info e;
          pos = di_pos info;
          (g1, us0) = spawn_xp_gem pos (di_xp_value info) us drop_group;
          (roll1, us1) = random_random us0;
          (g2, us2) =
            (if roll1 < health_pickup_drop_chance
             then (let (ox, ua) = uniform (- 10) 10 us1;
                       (oy, ub) = uniform (- 10) 10 ua
                   in (spawn_health_pickup (fl (fst pos + ox), fl (snd pos + oy)) g1, ub))
             else (g1, us1));
          (roll2, us3) = random_random us2
      in if roll2 < chest_drop_chance
         then (let (ox, ua) = uniform (- 15) 15 us3;
                   (oy, ub) = uniform (- 15) 15 ua
               in (spawn_chest (fl (fst pos + ox), fl (snd pos + oy)) g2, ub))
         else (g2, us3))"

section \<open>Attack effects (weapons/projectiles.py)\<close>

text \<open>The sprites of the projectile group: instances of \<^verbatim>\<open>Projectile\<close> (wand, knife
  and axe projectiles), of \<^verbatim>\<open>WhipSlash\<close> and of \<^verbatim>\<open>GarlicAura\<close>. \<open>pr_alive\<close> is False
  once \<^verbatim>\<open>kill()\<close> has removed the sprite from its groups; the object itself lives on
  while something still refers to it.\<close>

datatype effect_class = ProjectileClass | WhipSlashClass | GarlicAuraClass

record projectile =
  pr_class :: effect_class
  pr_rect :: rect
  pr_damage :: real
  pr_pierce :: int
  pr_hits_remaining :: int
  pr_hit_enemies :: "nat set"
  pr_age :: real
  pr_lifetime :: real
  pr_alive :: bool

text \<open>\<^verbatim>\<open>Projectile.__init__\<close> as \<^verbatim>\<open>KnifeProjectile\<close> (lifetime 2.0) and
  \<^verbatim>\<open>WandProjectile\<close> (lifetime 3.0) call it, and \<^verbatim>\<open>WhipSlash.__init__\<close> (lifetime
  0.2).\<close>

definition Projectile_init :: "rect \<Rightarrow> real \<Rightarrow> int \<Rightarrow> real \<Rightarrow> projectile" where
  "Projectile_init r damage pierce lifetime =
     \<lparr>pr_class = ProjectileClass, pr_rect = r, pr_damage = damage, pr_pierce = pierce,
      pr_hits_remaining = pierce, pr_hit_enemies = {}, pr_age = 0, pr_lifetime = lifetime,
      pr_alive = True\<rparr>"

definition KnifeProjectile :: "rect \<Rightarrow> real \<Rightarrow> int \<Rightarrow> projectile" where
  "KnifeProjectile r damage pierce = Projectile_init r damage pierce 2"

definition WandProjectile :: "rect \<Rightarrow> real \<Rightarrow> int \<Rightarrow> projectile" where
  "WandProjectile r damage pierce = Projectile_init r damage pierce 3"

definition WhipSlash :: "rect \<Rightarrow> real \<Rightarrow> int \<Rightarrow> projectile" where
  "WhipSlash r damage pierce =
     \<lparr>pr_class = WhipSlashClass, pr_rect = r, pr_damage = damage, pr_pierce = pierce,
      pr_hits_remaining = pierce, pr_hit_enemies = {}, pr_age = 0, pr_lifetime = 0.2,
      pr_alive = True\<rparr>"

text \<open>\<^verbatim>\<open>Projectile.hit_enemy\<close> and \<^verbatim>\<open>WhipSlash.hit_enemy\<close>; a \<^verbatim>\<open>GarlicAura\<close> has no
  such method.\<close>

definition hit_enemy :: "enemy \<Rightarrow> projectile \<Rightarrow> bool \<times> projectile" where
  "hit_enemy e pr =
     (if e_id e \<in> pr_hit_enemies pr then (False, pr)
      else case pr_class pr of
        ProjectileClass \<Rightarrow>
          (let pr1 = pr\<lparr>pr_hit_enemies := insert (e_id e) (pr_hit_enemies pr)\<rparr>;
               pr2 = pr1\<lparr>pr_hits_remaining := pr_hits_remaining pr1 - 1\<rparr>
           in (True, if pr_hits_remaining pr2 \<le> 0 then pr2\<lparr>pr_alive := False\<rparr> else pr2))
      | WhipSlashClass \<Rightarrow>
          (True, pr\<lparr>pr_hit_enemies := insert (e_id e) (pr_hit_enemies pr)\<rparr>)
      | GarlicAuraClass \<Rightarrow> (False, pr))"

text \<open>The age part of \<^verbatim>\<open>Projectile.update\<close> and \<^verbatim>\<open>WhipSlash.update\<close>.\<close>

definition projectile_update :: "real \<Rightarrow> projectile \<Rightarrow> projectile" where
  "projectile_update dt pr =
     (let pr1 = pr\<lparr>pr_age := pr_age pr + dt\<rparr>
      in if pr_age pr1 \<ge> pr_lifetime pr1 then pr1\<lparr>pr_alive := False\<rparr> else pr1)"

text \<open>\<^verbatim>\<open>WeaponController.handle_projectile_collisions\<close>. The accumulator is
  \<^verbatim>\<open>(damage_dealt, kills, dead_enemies)\<close>. The inner loop runs over a copy of the enemy
  group and does not look at whether the projectile is still in its group; an enemy that
  dies leaves the enemy group.\<close>

type_synonym collision_acc = "real \<times> int \<times> drop_info list"

fun collide_enemies ::
  "projectile \<Rightarrow> enemy list \<Rightarrow> collision_acc \<Rightarrow> projectile \<times> enemy list \<times> collision_acc" where
  "collide_enemies pr [] acc = (pr, [], acc)"
| "collide_enemies pr (e # es) (damage_dealt, kills, dead_enemies) =
     (if colliderect (pr_rect pr) (e_rect e) \<and> fst (hit_enemy e pr)
      then (let pr1 = snd (hit_enemy e pr);
                info = get_drop_info e;
                (died, e1) = take_damage (pr_damage pr1) e;
                acc1 = (if died
                        then (damage_dealt + pr_damage pr1, kills + 1, dead_enemies @ [info])
                        else (damage_dealt + pr_damage pr1, kills, dead_enemies));
                (pr2, es2, acc2) = collide_enemies pr1 es acc1
            in (pr2, (if died then es2 else e1 # es2), acc2))
      else (let pr1 = (if colliderect (pr_rect pr) (e_rect e) then snd (hit_enemy e pr) else pr);
                (pr2, es2, acc2) = collide_enemies pr1 es (damage_dealt, kills, dead_enemies)
            in (pr2, e # es2, acc2)))"

fun collide_projectiles ::
  "projectile list \<Rightarrow> enemy list \<Rightarrow> collision_acc
     \<Rightarrow> projectile list \<times> enemy list \<times> collision_acc" where
  "collide_projectiles [] es acc = ([], es, acc)"
| "collide_projectiles (pr # prs) es acc =
     (if pr_class pr = GarlicAuraClass
      then (let (prs', es', acc') = collide_projectiles prs es acc in (pr # prs', es', acc'))
      else (let (pr', es1, acc1) = collide_enemies pr es acc;
                (prs', es2, acc2) = collide_projectiles prs es1 acc1
            in (pr' # prs', es2, acc2)))"

text \<open>The result holds the returned triple, every sprite the loop visited in its final
  state, and the enemy group; the projectile group afterwards is the sprites still
  alive.\<close>

definition handle_projectile_collisions ::
  "projectile list \<Rightarrow> enemy list \<Rightarrow> collision_acc \<times> projectile list \<times> enemy list" where
  "handle_projectile_collisions projectile_group enemy_group =
     (let (prs, es, acc) = collide_projectiles projectile_group enemy_group (0, 0, [])
      in (acc, prs, es))"

definition sprites :: "projectile list \<Rightarrow> projectile list" where
  "sprites prs = filter pr_alive prs"

section \<open>The simulation tick (main.py)\<close>

text \<open>The death handling of \<^verbatim>\<open>Game.update\<close>: one \<^verbatim>\<open>spawn_xp_gem\<close> call for each drop
  descriptor of the tick's dead enemies.\<close>

fun update_enemy_deaths ::
  "drop_info list \<Rightarrow> real list \<Rightarrow> drop list \<Rightarrow> drop list \<times> real list" where
  "update_enemy_deaths [] us drop_group = (drop_group, us)"
| "update_enemy_deaths (info # dead_enemies) us drop_group =
     (let (g, us') = spawn_xp_gem (di_pos info) (di_xp_value info) us drop_group
      in update_enemy_deaths dead_enemies us' g)"

text \<open>What a drop shows of a gem: position, tier and value.\<close>

fun gem_of :: "drop \<Rightarrow> ((real \<times> real) \<times> string \<times> int) option" where
  "gem_of (ExperienceGem pos tier v bob_offset) = Some (pos, tier, v)"
| "gem_of (HealthPickup pos v) = None"
| "gem_of (Chest pos) = None"

text \<open>A chaser that died at \<open>(300, 400)\<close>, and draws under which both rolls of
  \<^verbatim>\<open>spawn_enemy_drops\<close> succeed with no jitter: the first draw is the gem's animation
  phase, then each roll is followed by its two jitter draws.\<close>

definition dead_chaser :: enemy where
  "dead_chaser = (create_enemy ''chaser'' 1 (300, 400) (300, 400) 1)\<lparr>e_hp := 0\<rparr>"

definition lucky_draws :: "real list" where
  "lucky_draws = [0, 0, 0.5, 0.5, 0, 0.5, 0.5]"

text \<open>A knife with pierce 1 whose rectangle overlaps two chasers in the same collision
  pass.\<close>

definition knife1 :: projectile where
  "knife1 = KnifeProjectile (rect_centered (6, 6) 10 10) 8 1"

definition two_chasers :: "enemy list" where
  "two_chasers =
     [create_enemy ''chaser'' 1 (5, 5) (5, 5) 1, create_enemy ''chaser'' 2 (8, 8) (8, 8) 1]"

section \<open>Contact damage (entities/player.py, main.py)\<close>

text \<open>\<^verbatim>\<open>Player.get_hit\<close>: True when the hit killed the player.\<close>

definition get_hit :: "real \<Rightarrow> player \<Rightarrow> bool \<times> player" where
  "get_hit damage p =
     (if p_is_invincible p \<or> p_dead p then (False, p)
      else if p_unlimited_health p
        then (False, p\<lparr>p_is_invincible := True, p_i_frames_timer := p_i_frames_duration p\<rparr>)
      else (let actual_damage = max 1 (damage - p_armor p);
                p1 = p\<lparr>p_hp := p_hp p - actual_damage,
                       p_damage_taken := p_damage_taken p + actual_damage\<rparr>;
                p2 = p1\<lparr>p_is_invincible := True, p_i_frames_timer := p_i_frames_duration p1\<rparr>
            in if p_hp p2 \<le> 0 then (True, p2\<lparr>p_hp := 0, p_dead := True\<rparr>)
               else (False, p2)))"

text \<open>\<^verbatim>\<open>Player.update_i_frames\<close> (the flash does not touch the fields modelled
  here).\<close>

definition update_i_frames :: "real \<Rightarrow> player \<Rightarrow> player" where
  "update_i_frames dt p =
     (if p_is_invincible p
      then (let p1 = p\<lparr>p_i_frames_timer := p_i_frames_timer p - dt\<rparr>
            in if p_i_frames_timer p1 \<le> 0
               then p1\<lparr>p_is_invincible := False, p_i_frames_timer := 0\<rparr>
               else p1)
      else p)"

text \<open>\<^verbatim>\<open>Game._handle_player_enemy_collision\<close>: the loop over the enemy group. The
  third component is True when the player died, in which case the method returned at
  once.\<close>

fun handle_player_enemy_collision :: "player \<Rightarrow> enemy list \<Rightarrow> player \<times> enemy list \<times> bool" where
  "handle_player_enemy_collision p [] = (p, [], False)"
| "handle_player_enemy_collision p (e # es) =
     (if colliderect (p_hitbox p) (e_hitbox e) \<and> can_damage e \<and> \<not> p_is_invincible p
      then (case get_hit (of_int (e_damage e)) p of
              (True, p') \<Rightarrow> (p', e # es, True)
            | (False, p') \<Rightarrow>
                (let (p'', es', died) = handle_player_enemy_collision p' es
                 in (p'', reset_damage_cooldown e # es', died)))
      else (let (p'', es', died) = handle_player_enemy_collision p es
            in (p'', e # es', died)))"

text \<open>The steps of one \<^verbatim>\<open>Game.update\<close> that bear on contact damage, for a player and
  enemies whose hitboxes stay where they are: the player's invincibility timer, each
  enemy's damage cooldown, then the collision pass. A dead player stops the tick.\<close>

definition tick_contacts :: "real \<Rightarrow> player \<times> enemy list \<Rightarrow> player \<times> enemy list \<times> bool" where
  "tick_contacts dt s =
     (let (p, es) = s in
      if p_dead p then (p, es, True)
      else handle_player_enemy_collision (update_i_frames dt p)
             (map (update_damage_cooldown dt) es))"

text \<open>Two chasers standing on the player, and a player with 10 HP left.\<close>

definition chasers_on_player :: "enemy list" where
  "chasers_on_player =
     [create_enemy ''chaser'' 1 (1000, 1000) start_pos 1,
      create_enemy ''chaser'' 2 (1000, 1000) start_pos 1]"

definition weak_player :: player where
  "weak_player = new_player\<lparr>p_hp := 10\<rparr>"

section \<open>The garlic aura (weapons/projectiles.py, weapons/controller.py)\<close>

text \<open>\<^verbatim>\<open>GarlicAura.can_damage_enemy\<close> and the pruning of \<^verbatim>\<open>GarlicAura.update\<close>. Both
  read the clock (\<^verbatim>\<open>pygame.time.get_ticks() / 1000\<close>); the reading is passed in as
  \<open>current_time\<close>.\<close>

definition can_damage_enemy :: "nat \<Rightarrow> real \<Rightarrow> garlic_aura \<Rightarrow> bool \<times> garlic_aura" where
  "can_damage_enemy enemy_id current_time a =
     (case ga_damage_timers a enemy_id of
        None \<Rightarrow> (True, a\<lparr>ga_damage_timers := (ga_damage_timers a)(enemy_id \<mapsto> current_time)\<rparr>)
      | Some last_tick \<Rightarrow>
          if current_time - last_tick \<ge> ga_tick_rate a
          then (True, a\<lparr>ga_damage_timers := (ga_damage_timers a)(enemy_id \<mapsto> current_time)\<rparr>)
          else (False, a))"

definition aura_update :: "real \<Rightarrow> garlic_aura \<Rightarrow> garlic_aura" where
  "aura_update current_time a =
     a\<lparr>ga_damage_timers :=
         (\<lambda>k. case ga_damage_timers a k of
                None \<Rightarrow> None
              | Some v \<Rightarrow> if current_time - v < ga_tick_rate a * 2 then Some v else None)\<rparr>"

text \<open>What \<^verbatim>\<open>GarlicWeapon.update\<close> does to the aura over the frames of a run:
  \<open>AuraUpdate t\<close> is a call of the aura's \<^verbatim>\<open>update\<close> at clock time \<open>t\<close>, and
  \<open>InRange e t\<close> is the loop over the enemies in range reaching enemy \<open>e\<close> and calling
  \<^verbatim>\<open>can_damage_enemy\<close> at clock time \<open>t\<close>. When the call returns True the weapon
  damages the enemy; \<open>aura_run\<close> lists these damage events in order.\<close>

datatype aura_event = AuraUpdate real | InRange nat real

fun event_time :: "aura_event \<Rightarrow> real" where
  "event_time (AuraUpdate t) = t"
| "event_time (InRange e t) = t"

fun aura_run :: "garlic_aura \<Rightarrow> aura_event list \<Rightarrow> (real \<times> nat) list" where
  "aura_run a [] = []"
| "aura_run a (AuraUpdate t # evs) = aura_run (aura_update t a) evs"
| "aura_run a (InRange e t # evs) =
     (if fst (can_damage_enemy e t a)
      then (t, e) # aura_run (snd (can_damage_enemy e t a)) evs
      else aura_run (snd (can_damage_enemy e t a)) evs)"

text \<open>One frame at clock time \<open>t\<close> with the given enemies in range.\<close>

definition frame_events :: "real \<Rightarrow> nat list \<Rightarrow> aura_event list" where
  "frame_events t ids = AuraUpdate t # map (\<lambda>e. InRange e t) ids"

text \<open>In a list of damage events, every later event on the same enemy comes at least
  \<open>c\<close> after the earlier one.\<close>

fun spaced :: "real \<Rightarrow> (real \<times> nat) list \<Rightarrow> bool" where
  "spaced c [] = True"
| "spaced c ((t, e) # xs) = (list_all (\<lambda>(t', e'). e' \<noteq> e \<or> c \<le> t' - t) xs \<and> spaced c xs)"

text \<open>A fresh aura with tick rate 0.5, and six frames 0.1 s apart with enemies 7 and 8
  in range.\<close>

definition aura0 :: garlic_aura where
  "aura0 = \<lparr>ga_damage = 5, ga_radius = 60, ga_tick_rate = 0.5, ga_damage_timers = Map.empty\<rparr>"

definition six_frames :: "aura_event list" where
  "six_frames = concat (map (\<lambda>k. frame_events (of_nat k / 10) [7, 8]) [0, 1, 2, 3, 4, 5])"

text \<open>The difficulty multiplier of the specification, in exact arithmetic.\<close>

definition spec_diff :: "real \<Rightarrow> real" where
  "spec_diff t = 1 + 0.05 * (t / 60)"

section \<open>Player progression: thresholds and level-ups\<close>

lemma level_up_level: "p_level (snd (level_up p)) = p_level p + 1"
  by (simp add: level_up_def Let_def heal_def)

lemma level_up_threshold:
  "p_xp_to_next_level (snd (level_up p)) = (100 + p_level p * 50) div 2"
  by (simp add: level_up_def Let_def heal_def base_xp_to_level_def xp_per_level_increase_def)

lemma level_up_xp: "p_xp (snd (level_up p)) = p_xp p - p_xp_to_next_level p"
  by (simp add: level_up_def Let_def heal_def)

lemma gain_xp_threshold_inv:
  assumes "p_xp_to_next_level p = (100 + (p_level p - 1) * 50) div 2"
  shows "p_xp_to_next_level (snd (gain_xp a p))
           = (100 + (p_level (snd (gain_xp a p)) - 1) * 50) div 2"
  using assms by (simp add: gain_xp_def Let_def level_up_level level_up_threshold)

lemma gain_xp_level_mono: "p_level p \<le> p_level (snd (gain_xp a p))"
  by (simp add: gain_xp_def Let_def level_up_level)

lemma gain_xp_all_inv:
  "1 \<le> p_level p \<Longrightarrow> p_xp_to_next_level p = (100 + (p_level p - 1) * 50) div 2 \<Longrightarrow>
   1 \<le> p_level (gain_xp_all as p) \<and>
   p_xp_to_next_level (gain_xp_all as p) = (100 + (p_level (gain_xp_all as p) - 1) * 50) div 2"
proof (induction as arbitrary: p)
  case Nil
  then show ?case by simp
next
  case (Cons a as)
  have "1 \<le> p_level (snd (gain_xp a p))"
    using Cons.prems(1) gain_xp_level_mono [of p a] by linarith
  moreover have "p_xp_to_next_level (snd (gain_xp a p))
                   = (100 + (p_level (snd (gain_xp a p)) - 1) * 50) div 2"
    using Cons.prems(2) by (rule gain_xp_threshold_inv)
  ultimately show ?case using Cons.IH by simp
qed

text \<open>
  C5. A new player needs \<open>floor(100/2) = 50\<close> XP to reach level 2. Every
  \<^verbatim>\<open>level_up\<close> that brings the player to level \<open>L\<close> sets the threshold to
  \<open>floor((100 + (L-1)*50)/2)\<close>, and so after any run of \<^verbatim>\<open>gain_xp\<close> calls from a new
  player that reached a level \<open>L \<ge> 2\<close> the threshold in effect is that value.
\<close>

theorem xp_threshold_formula:
  "p_xp_to_next_level (Player_init pos cheat) = 100 div 2
   \<and> p_xp_to_next_level (Player_init pos cheat) = 50
   \<and> (p_level (snd (level_up p)) = L \<longrightarrow>
        p_xp_to_next_level (snd (level_up p)) = (100 + (L - 1) * 50) div 2)
   \<and> (2 \<le> p_level (gain_xp_all as (Player_init pos cheat)) \<longrightarrow>
        p_xp_to_next_level (gain_xp_all as (Player_init pos cheat))
          = (100 + (p_level (gain_xp_all as (Player_init pos cheat)) - 1) * 50) div 2)"
proof -
  have init: "p_xp_to_next_level (Player_init pos cheat) = 50" "p_level (Player_init pos cheat) = 1"
    by (simp_all add: Player_init_def new_player_def base_xp_to_level_def)
  have "p_level (snd (level_up p)) = L \<longrightarrow>
        p_xp_to_next_level (snd (level_up p)) = (100 + (L - 1) * 50) div 2"
    by (auto simp: level_up_level level_up_threshold)
  moreover have "p_xp_to_next_level (gain_xp_all as (Player_init pos cheat))
          = (100 + (p_level (gain_xp_all as (Player_init pos cheat)) - 1) * 50) div 2"
    using gain_xp_all_inv [of "Player_init pos cheat" as] init by simp
  ultimately show ?thesis using init by simp
qed

theorem xp_threshold_formula_witness:
  "p_level (snd (level_up new_player)) = 2
   \<and> p_xp_to_next_level (snd (level_up new_player)) = 75
   \<and> 2 \<le> p_level (gain_xp_all [50, 80] new_player)
   \<and> p_level (gain_xp_all [50, 80] new_player) = 3
   \<and> p_xp_to_next_level (gain_xp_all [50, 80] new_player) = 100"
proof -
  have l: "p_level (snd (level_up new_player)) = 2"
    by (simp add: level_up_level Player_init_def new_player_def)
  have g: "p_level (gain_xp_all [50, 80] new_player) = 3"
    by (simp add: gain_xp_def level_up_def Let_def heal_def Player_init_def new_player_def
        base_xp_to_level_def xp_per_level_increase_def)
  show ?thesis
    using xp_threshold_formula [where pos = start_pos and cheat = False and p = new_player
        and L = 2 and as = "[50, 80]", folded new_player_def] l g
    by simp
qed

text \<open>
  C10. One \<^verbatim>\<open>gain_xp\<close> call raises the level by one when the new XP total reaches
  the threshold and not at all otherwise, whatever the amount; the XP left after
  subtracting the old threshold is kept as it is, also when it already reaches the new
  threshold, and then the next \<^verbatim>\<open>gain_xp\<close> call (of any amount \<open>b \<ge> 0\<close>) levels up
  again.
\<close>

theorem gain_xp_single_level_up:
  "p_level (snd (gain_xp a p))
     = (if p_xp_to_next_level p \<le> p_xp p + a then p_level p + 1 else p_level p)
   \<and> p_level (snd (gain_xp a p)) \<le> p_level p + 1
   \<and> p_xp (snd (gain_xp a p))
     = (if p_xp_to_next_level p \<le> p_xp p + a then p_xp p + a - p_xp_to_next_level p
        else p_xp p + a)
   \<and> (0 \<le> b \<and> p_xp_to_next_level (snd (gain_xp a p)) \<le> p_xp (snd (gain_xp a p)) \<longrightarrow>
        fst (gain_xp b (snd (gain_xp a p)))
        \<and> p_level (snd (gain_xp b (snd (gain_xp a p)))) = p_level (snd (gain_xp a p)) + 1)"
proof -
  let ?q = "snd (gain_xp a p)"
  have lv: "p_level ?q
      = (if p_xp_to_next_level p \<le> p_xp p + a then p_level p + 1 else p_level p)"
    by (simp add: gain_xp_def Let_def level_up_level)
  have xp: "p_xp ?q
      = (if p_xp_to_next_level p \<le> p_xp p + a then p_xp p + a - p_xp_to_next_level p
         else p_xp p + a)"
    by (simp add: gain_xp_def Let_def level_up_xp)
  have again: "fst (gain_xp b ?q) \<and> p_level (snd (gain_xp b ?q)) = p_level ?q + 1"
    if "0 \<le> b" and "p_xp_to_next_level ?q \<le> p_xp ?q"
  proof -
    have "p_xp_to_next_level ?q \<le> p_xp ?q + b" using that by simp
    then have "gain_xp b ?q = level_up (?q\<lparr>p_xp := p_xp ?q + b\<rparr>)"
      by (simp add: gain_xp_def Let_def)
    then show ?thesis by (simp add: level_up_level) (simp add: level_up_def Let_def)
  qed
  show ?thesis using lv xp again by simp
qed

theorem gain_xp_single_level_up_witness:
  "p_level (snd (gain_xp 1000 new_player)) = 2
   \<and> p_xp (snd (gain_xp 1000 new_player)) = 950
   \<and> p_xp_to_next_level (snd (gain_xp 1000 new_player)) = 75
   \<and> p_level (snd (gain_xp 0 (snd (gain_xp 1000 new_player)))) = 3"
proof -
  have t: "p_xp_to_next_level (snd (gain_xp 1000 new_player)) = 75"
    by (simp add: gain_xp_def level_up_def Let_def heal_def Player_init_def new_player_def
        base_xp_to_level_def xp_per_level_increase_def)
  have i: "p_xp new_player = 0" "p_level new_player = 1"
    "p_xp_to_next_level new_player = 50"
    by (simp_all add: Player_init_def new_player_def base_xp_to_level_def)
  show ?thesis
    using gain_xp_single_level_up [where p = new_player and a = 1000 and b = 0] t i
    by simp
qed

section \<open>Weapon stat recomputation\<close>

lemma recalc_base_fields:
  "w_level (recalculate_stats_base p w) = w_level w"
  "w_max_level (recalculate_stats_base p w) = w_max_level w"
  "w_data (recalculate_stats_base p w) = w_data w"
  "w_evolved (recalculate_stats_base p w) = w_evolved w"
  "w_aura (recalculate_stats_base p w) = w_aura w"
  by (simp_all add: recalculate_stats_base_def Let_def)

lemma recalc_base_stats:
  "w_damage (recalculate_stats_base p w)
     = (base_damage (w_data w) + sc_damage (wd_scaling (w_data w)) * of_int (w_level w - 1)) * p_might p"
  "w_cooldown (recalculate_stats_base p w)
     = max 0.1 (base_cooldown (w_data w) + sc_cooldown (wd_scaling (w_data w)) * of_int (w_level w - 1))
         * (1 - p_cooldown_reduction p)"
  "w_area (recalculate_stats_base p w)
     = base_area (w_data w) + sc_area (wd_scaling (w_data w)) * of_int (w_level w - 1)"
  "w_amount (recalculate_stats_base p w)
     = (if sc_amount (wd_scaling (w_data w)) > 0
        then base_amount (w_data w) + ((w_level w - 1) div 2) * sc_amount (wd_scaling (w_data w))
        else base_amount (w_data w))"
  by (simp_all add: recalculate_stats_base_def Let_def)

lemma recalc_fields:
  "w_level (recalculate_stats p w) = w_level w"
  "w_max_level (recalculate_stats p w) = w_max_level w"
  "w_data (recalculate_stats p w) = w_data w"
  "w_evolved (recalculate_stats p w) = w_evolved w"
  "w_damage (recalculate_stats p w) = w_damage (recalculate_stats_base p w)"
  "w_cooldown (recalculate_stats p w) = w_cooldown (recalculate_stats_base p w)"
  "w_area (recalculate_stats p w) = w_area (recalculate_stats_base p w)"
  "w_amount (recalculate_stats p w) = w_amount (recalculate_stats_base p w)"
  by (simp_all add: recalculate_stats_def Let_def recalc_base_fields split: option.split)

lemma floor_half: "\<lfloor>(of_int k - 1) / (2::real)\<rfloor> = (k - 1) div 2"
  using floor_divide_of_int_eq [of "k - 1" 2, where ?'a = real] by simp

lemma recalc_closed_form: "closed_form p (recalculate_stats p w)"
  by (simp add: closed_form_def recalc_fields recalc_base_stats spec_damage_def
      spec_cooldown_def spec_area_def spec_amount_def floor_half)

lemma Weapon_init_fields:
  "w_level (Weapon_init wid p) = 1"
  "closed_form p (Weapon_init wid p)"
proof -
  show "w_level (Weapon_init wid p) = 1"
    by (simp add: Weapon_init_def Let_def recalc_fields)
  have "\<And>w a. closed_form p w \<Longrightarrow> closed_form p (w\<lparr>w_aura := a\<rparr>)"
    by (simp add: closed_form_def)
  then show "closed_form p (Weapon_init wid p)"
    by (simp add: Weapon_init_def Let_def recalc_closed_form)
qed

lemma weapon_level_up_props:
  "w_max_level (snd (weapon_level_up p w)) = w_max_level w"
  "w_level w < w_max_level w \<Longrightarrow> w_level (snd (weapon_level_up p w)) = w_level w + 1"
  "closed_form p w \<Longrightarrow> closed_form p (snd (weapon_level_up p w))"
  by (simp_all add: weapon_level_up_def recalc_fields recalc_closed_form)

lemma level_up_times_props:
  "w_level w + int n \<le> w_max_level w \<Longrightarrow> closed_form p w \<Longrightarrow>
   w_level (level_up_times n p w) = w_level w + int n
   \<and> closed_form p (level_up_times n p w)"
proof (induction n arbitrary: w)
  case 0
  then show ?case by simp
next
  case (Suc n)
  let ?w = "snd (weapon_level_up p w)"
  have lt: "w_level w < w_max_level w" using Suc.prems(1) by simp
  have "w_level ?w + int n \<le> w_max_level ?w"
    using Suc.prems(1) lt by (simp add: weapon_level_up_props)
  moreover have "closed_form p ?w" using Suc.prems(2) by (rule weapon_level_up_props)
  ultimately show ?case using Suc.IH [of ?w] lt by (simp add: weapon_level_up_props)
qed

text \<open>
  C4. A weapon built by its constructor and levelled up to any level \<open>L\<close> between 1 and
  its maximum level has level \<open>L\<close> and the derived stats of the closed forms:
  damage \<open>(baseDamage + damagePerLevel (L-1)) * might\<close>, cooldown
  \<open>max(0.1, baseCooldown + cooldownDelta (L-1)) * (1 - cooldownReduction)\<close>, area
  \<open>baseArea + areaPerLevel (L-1)\<close>, amount \<open>baseAmount + floor((L-1)/2) * amountPerLevel\<close>
  when \<open>amountPerLevel > 0\<close> and \<open>baseAmount\<close> otherwise. The player's modifiers are the
  last factors, and a later recomputation under changed modifiers (player \<open>p'\<close>) gives
  the closed forms for the new modifiers.
\<close>

theorem weapon_stats_closed_form:
  assumes "1 \<le> L" and "L \<le> w_max_level (Weapon_init wid p)"
    and "w = level_up_times (nat (L - 1)) p (Weapon_init wid p)"
  shows "w_level w = L
    \<and> w_damage w = (base_damage (w_data w) + sc_damage (wd_scaling (w_data w)) * of_int (L - 1))
                     * p_might p
    \<and> w_cooldown w = max 0.1 (base_cooldown (w_data w)
                                + sc_cooldown (wd_scaling (w_data w)) * of_int (L - 1))
                     * (1 - p_cooldown_reduction p)
    \<and> w_area w = base_area (w_data w) + sc_area (wd_scaling (w_data w)) * of_int (L - 1)
    \<and> w_amount w = (if sc_amount (wd_scaling (w_data w)) > 0
                     then base_amount (w_data w)
                          + \<lfloor>of_int (L - 1) / (2::real)\<rfloor> * sc_amount (wd_scaling (w_data w))
                     else base_amount (w_data w))
    \<and> closed_form p' (recalculate_stats p' w)"
proof -
  let ?w0 = "Weapon_init wid p"
  have "w_level ?w0 + int (nat (L - 1)) \<le> w_max_level ?w0"
    using assms(1,2) by (simp add: Weapon_init_fields)
  then have "w_level w = w_level ?w0 + int (nat (L - 1)) \<and> closed_form p w"
    unfolding assms(3) using Weapon_init_fields(2) by (rule level_up_times_props)
  then have lv: "w_level w = L" and cf: "closed_form p w"
    using assms(1) by (simp_all add: Weapon_init_fields)
  show ?thesis
    using cf lv recalc_closed_form [of p' w]
    by (simp add: closed_form_def spec_damage_def spec_cooldown_def spec_area_def
        spec_amount_def)
qed

theorem weapon_stats_closed_form_witness:
  "w_level (level_up_times 4 new_player (Weapon_init ''wand'' new_player)) = 5
   \<and> w_damage (level_up_times 4 new_player (Weapon_init ''wand'' new_player)) = 22
   \<and> w_cooldown (level_up_times 4 new_player (Weapon_init ''wand'' new_player)) = 0.68
   \<and> w_amount (level_up_times 4 new_player (Weapon_init ''wand'' new_player)) = 3"
proof -
  let ?p = new_player
  let ?w = "level_up_times 4 ?p (Weapon_init ''wand'' ?p)"
  have a: "(1::int) \<le> 5" "5 \<le> w_max_level (Weapon_init ''wand'' ?p)"
    by code_simp+
  have b: "?w = level_up_times (nat (5 - 1)) ?p (Weapon_init ''wand'' ?p)" by simp
  have d: "w_data ?w = the (map_of WEAPON_DATA ''wand'')" by code_simp
  have m: "p_might ?p = 1" "p_cooldown_reduction ?p = 0"
    by (simp_all add: Player_init_def new_player_def)
  show ?thesis
    using weapon_stats_closed_form [OF a b, of ?p] 
    by (simp add: d m WEAPON_DATA_def)
qed


lemma evolve_base_fields:
  "w_level (snd (evolve_base w)) = w_level w"
  "base_damage (w_data (snd (evolve_base w))) = base_damage (w_data w)"
  "wd_scaling (w_data (snd (evolve_base w))) = wd_scaling (w_data w)"
  "fst (evolve_base w) \<Longrightarrow> w_evolved (snd (evolve_base w))"
  "fst (evolve_base w) \<Longrightarrow> w_damage (snd (evolve_base w)) = w_damage w * evolution_mult w"
  by (auto simp: evolve_base_def evolution_mult_def split: option.splits if_splits)

lemma evolve_fields:
  "w_level (snd (evolve w)) = w_level w"
  "base_damage (w_data (snd (evolve w))) = base_damage (w_data w)"
  "wd_scaling (w_data (snd (evolve w))) = wd_scaling (w_data w)"
  "fst (evolve w) \<Longrightarrow> w_evolved (snd (evolve w))"
  "fst (evolve w) \<Longrightarrow> w_damage (snd (evolve w)) = w_damage w * evolution_mult w"
  using evolve_base_fields [of w]
  by (auto simp: evolve_def split: prod.splits bool.splits if_splits)

lemma recalc_damage: "w_damage (recalculate_stats p w) = unevolved_damage p w"
  by (simp add: recalc_fields recalc_base_stats unevolved_damage_def)

lemma unevolved_damage_recalc:
  "unevolved_damage p (recalculate_stats q w) = unevolved_damage p w"
  by (simp add: unevolved_damage_def recalc_fields)

lemma update_weapon_stats_damage:
  "list_all (\<lambda>(wid, w). w_damage w = unevolved_damage p w)
     (wc_weapons (update_weapon_stats p c))"
  by (simp add: update_weapon_stats_def list_all_iff recalc_damage unevolved_damage_recalc
      split: prod.splits)

lemma add_passive_damage:
  assumes "fst (add_passive pid p c)"
  shows "list_all (\<lambda>(wid, w). w_damage w = unevolved_damage (fst (snd (add_passive pid p c))) w)
           (wc_weapons (snd (snd (add_passive pid p c))))"
  using assms update_weapon_stats_damage
  by (auto simp: add_passive_def Let_def split: option.splits if_splits)

text \<open>
  C9. \<^verbatim>\<open>evolve\<close> multiplies the damage by the evolution's multiplier and sets the
  evolved flag. Any later recomputation of the stats puts the damage back to
  \<open>(baseDamage + damagePerLevel (level-1)) * might\<close>, the value of the same weapon had it
  never evolved, while the weapon stays evolved; \<^verbatim>\<open>add_passive\<close>, when it succeeds,
  does this to every weapon of the inventory.
\<close>

theorem evolution_multiplier_lost:
  "(fst (evolve w) \<longrightarrow>
      w_evolved (snd (evolve w)) \<and> w_damage (snd (evolve w)) = w_damage w * evolution_mult w)
   \<and> w_damage (recalculate_stats p (snd (evolve w)))
       = (base_damage (w_data w) + sc_damage (wd_scaling (w_data w)) * of_int (w_level w - 1))
           * p_might p
   \<and> w_damage (recalculate_stats p (snd (evolve w))) = w_damage (recalculate_stats p w)
   \<and> w_evolved (recalculate_stats p (snd (evolve w))) = w_evolved (snd (evolve w))
   \<and> (fst (add_passive pid p c) \<longrightarrow>
        list_all (\<lambda>(wid, w). w_damage w = unevolved_damage (fst (snd (add_passive pid p c))) w)
          (wc_weapons (snd (snd (add_passive pid p c)))))"
proof -
  have "w_damage (recalculate_stats p (snd (evolve w))) = unevolved_damage p w"
    by (simp add: recalc_damage unevolved_damage_def evolve_fields)
  then show ?thesis
    using add_passive_damage [of pid p c]
    by (simp add: evolve_fields recalc_damage recalc_fields unevolved_damage_def)
qed

theorem evolution_multiplier_lost_witness:
  "fst (evolve whip8) \<and> w_damage whip8 = 55 \<and> w_damage (snd (evolve whip8)) = 110
   \<and> w_damage (recalculate_stats new_player (snd (evolve whip8))) = 55
   \<and> w_evolved (recalculate_stats new_player (snd (evolve whip8)))
   \<and> fst (add_passive ''might_boost'' new_player ctrl8)
   \<and> map (\<lambda>(wid, w). (w_evolved w, w_damage w))
        (wc_weapons (snd (snd (add_passive ''might_boost'' new_player ctrl8))))
      = [(True, 60.5)]"
proof -
  have a: "fst (evolve whip8)" "w_damage whip8 = 55" "evolution_mult whip8 = 2"
    by code_simp+
  have b: "fst (add_passive ''might_boost'' new_player ctrl8)"
    by code_simp
  have c: "map (\<lambda>(wid, w). (w_evolved w, unevolved_damage
                (fst (snd (add_passive ''might_boost'' new_player ctrl8))) w))
        (wc_weapons (snd (snd (add_passive ''might_boost'' new_player ctrl8))))
      = [(True, 60.5)]"
    by code_simp
  have d: "base_damage (w_data whip8) = 20" "sc_damage (wd_scaling (w_data whip8)) = 5"
    "w_level whip8 = 8" "p_might new_player = 1"
    by code_simp+
  have e: "length (wc_weapons (snd (snd (add_passive ''might_boost'' new_player ctrl8)))) = 1"
    by code_simp
  from e obtain x where x: "wc_weapons (snd (snd (add_passive ''might_boost'' new_player ctrl8))) = [x]"
    by (auto simp: length_Suc_conv)
  show ?thesis
    using evolution_multiplier_lost [where w = whip8 and p = new_player
        and pid = "''might_boost''" and c = ctrl8] a b c d
    by (auto simp: x split: prod.splits)
qed

section \<open>Upgrade selection: the pool is never empty, and padding\<close>








lemma pad_options_empty_pool: "pad_options options cnt [] rs = options"
  by (subst pad_options.simps) simp

lemma select_options_empty: "select_options [] cnt rs = []"
  by (simp add: select_options_def shuffle_def pad_options_empty_pool)



























section \<open>Pierce\<close>

lemma hit_enemy_once: "e_id e \<in> pr_hit_enemies pr \<Longrightarrow> hit_enemy e pr = (False, pr)"
  by (simp add: hit_enemy_def)

lemma hit_enemy_hits_remaining:
  "pr_hits_remaining (snd (hit_enemy e pr)) \<le> pr_hits_remaining pr"
  by (simp add: hit_enemy_def Let_def split: effect_class.split)

text \<open>
  C6. A knife created with pierce 1 that overlaps two enemies in one collision pass
  damages both: the first hit brings the counter to 0 and removes the knife from its
  group, and the loop over the enemies goes on with the same object, which hits the
  second enemy and ends with the counter at -1.
\<close>

theorem pierce_one_hits_two:
  "(case handle_projectile_collisions [knife1] two_chasers of
      ((damage_dealt, kills, dead), prs, es) \<Rightarrow>
        damage_dealt = 16
        \<and> map pr_pierce prs = [1]
        \<and> map pr_hit_enemies prs = [{1, 2}]
        \<and> map pr_hits_remaining prs = [- 1]
        \<and> map pr_alive prs = [False]
        \<and> map e_id es = [1, 2]
        \<and> map e_hp es = [2, 2])
   \<and> map e_hp two_chasers = [10, 10]"
  by code_simp

section \<open>Contact damage: the two gates\<close>

lemma collision_invincible:
  "p_is_invincible p \<Longrightarrow> handle_player_enemy_collision p es = (p, es, False)"
  by (induction es) simp_all

lemma update_i_frames_keeps:
  "p_is_invincible p \<Longrightarrow> dt < p_i_frames_timer p \<Longrightarrow>
   p_is_invincible (update_i_frames dt p)
   \<and> p_damage_taken (update_i_frames dt p) = p_damage_taken p
   \<and> p_hp (update_i_frames dt p) = p_hp p"
  by (simp add: update_i_frames_def Let_def)

lemma contact_blocked:
  assumes "\<not> (colliderect (p_hitbox p) (e_hitbox e) \<and> e_damage_cooldown e \<le> 0
              \<and> \<not> p_is_invincible p)"
  shows "handle_player_enemy_collision p [e] = (p, [e], False)"
  using assms by (auto simp: can_damage_def)

lemma contact_hit:
  assumes "colliderect (p_hitbox p) (e_hitbox e)" "e_damage_cooldown e \<le> 0"
    "\<not> p_is_invincible p" "\<not> p_dead p" "\<not> p_unlimited_health p"
    and r: "handle_player_enemy_collision p [e] = (p', es', died)"
  shows "p_damage_taken p' = p_damage_taken p + max 1 (of_int (e_damage e) - p_armor p)"
    and "p_hp p' = max 0 (p_hp p - max 1 (of_int (e_damage e) - p_armor p))"
    and "p_is_invincible p'" and "p_i_frames_timer p' = p_i_frames_duration p"
    and "died = (p_hp p - max 1 (of_int (e_damage e) - p_armor p) \<le> 0)"
    and "\<not> died \<Longrightarrow> es' = [reset_damage_cooldown e]"
    and "died \<Longrightarrow> es' = [e] \<and> p_dead p'"
proof -
  let ?a = "max 1 (of_int (e_damage e) - p_armor p)"
  show "p_damage_taken p' = p_damage_taken p + ?a"
    and "p_hp p' = max 0 (p_hp p - ?a)"
    and "p_is_invincible p'" and "p_i_frames_timer p' = p_i_frames_duration p"
    and "died = (p_hp p - ?a \<le> 0)"
    and "\<not> died \<Longrightarrow> es' = [reset_damage_cooldown e]"
    and "died \<Longrightarrow> es' = [e] \<and> p_dead p'"
    using assms(1-5) r
    by (auto simp: can_damage_def get_hit_def Let_def split: if_splits)
qed

lemma contact_cheat:
  assumes "colliderect (p_hitbox p) (e_hitbox e)" "e_damage_cooldown e \<le> 0"
    "\<not> p_is_invincible p" "\<not> p_dead p" "p_unlimited_health p"
    and r: "handle_player_enemy_collision p [e] = (p', es', died)"
  shows "p_damage_taken p' = p_damage_taken p \<and> p_hp p' = p_hp p \<and> p_is_invincible p'
         \<and> es' = [reset_damage_cooldown e] \<and> \<not> died"
  using assms by (auto simp: can_damage_def get_hit_def Let_def split: if_splits)

text \<open>
  C7 (as amended). For a contact of an enemy with the player: unless the hitboxes
  overlap, the enemy's damage cooldown has run out and the player is not invincible,
  nothing changes. Otherwise the player (alive, no cheat) takes
  \<open>max(1, damage - armor)\<close>, the invincibility window opens for its full duration, and
  the enemy's cooldown is reset to 0.5 s unless the hit killed the player, in which case
  the pass stops at once and the cooldown stays as it was. With the unlimited-health
  cheat no damage is taken, and the window opens and the cooldown resets all the same.
  While the player is invincible no enemy of a pass does anything, and a tick shorter
  than the time left on the window applies no damage.
\<close>

theorem contact_damage_gated:
  assumes "handle_player_enemy_collision p [e] = (p', es', died)"
  shows "(\<not> (colliderect (p_hitbox p) (e_hitbox e) \<and> e_damage_cooldown e \<le> 0
              \<and> \<not> p_is_invincible p) \<longrightarrow> p' = p \<and> es' = [e] \<and> \<not> died)
    \<and> (colliderect (p_hitbox p) (e_hitbox e) \<and> e_damage_cooldown e \<le> 0
           \<and> \<not> p_is_invincible p \<and> \<not> p_dead p \<and> \<not> p_unlimited_health p \<longrightarrow>
         p_damage_taken p' = p_damage_taken p + max 1 (of_int (e_damage e) - p_armor p)
         \<and> p_hp p' = max 0 (p_hp p - max 1 (of_int (e_damage e) - p_armor p))
         \<and> p_is_invincible p' \<and> p_i_frames_timer p' = p_i_frames_duration p
         \<and> died = (p_hp p - max 1 (of_int (e_damage e) - p_armor p) \<le> 0)
         \<and> (\<not> died \<longrightarrow> map e_damage_cooldown es' = [0.5])
         \<and> (died \<longrightarrow> es' = [e] \<and> p_dead p'))
    \<and> (colliderect (p_hitbox p) (e_hitbox e) \<and> e_damage_cooldown e \<le> 0
           \<and> \<not> p_is_invincible p \<and> \<not> p_dead p \<and> p_unlimited_health p \<longrightarrow>
         p_damage_taken p' = p_damage_taken p \<and> p_hp p' = p_hp p \<and> p_is_invincible p'
         \<and> map e_damage_cooldown es' = [0.5] \<and> \<not> died)
    \<and> (p_is_invincible q \<longrightarrow> handle_player_enemy_collision q es = (q, es, False))
    \<and> (p_is_invincible q \<and> dt < p_i_frames_timer q \<and> \<not> p_dead q \<longrightarrow>
         p_damage_taken (fst (tick_contacts dt (q, es))) = p_damage_taken q
         \<and> p_hp (fst (tick_contacts dt (q, es))) = p_hp q)"
proof (intro conjI impI)
  assume "\<not> (colliderect (p_hitbox p) (e_hitbox e) \<and> e_damage_cooldown e \<le> 0
              \<and> \<not> p_is_invincible p)"
  from contact_blocked [OF this] assms show "p' = p" "es' = [e]" "\<not> died" by simp_all
next
  assume g: "colliderect (p_hitbox p) (e_hitbox e) \<and> e_damage_cooldown e \<le> 0
           \<and> \<not> p_is_invincible p \<and> \<not> p_dead p \<and> \<not> p_unlimited_health p"
  then have g': "colliderect (p_hitbox p) (e_hitbox e)" "e_damage_cooldown e \<le> 0"
    "\<not> p_is_invincible p" "\<not> p_dead p" "\<not> p_unlimited_health p" by simp_all
  note h = contact_hit [OF g' assms]
  show "p_damage_taken p' = p_damage_taken p + max 1 (of_int (e_damage e) - p_armor p)"
    by (rule h(1))
  show "p_hp p' = max 0 (p_hp p - max 1 (of_int (e_damage e) - p_armor p))" by (rule h(2))
  show "p_is_invincible p'" by (rule h(3))
  show "p_i_frames_timer p' = p_i_frames_duration p" by (rule h(4))
  show "died = (p_hp p - max 1 (of_int (e_damage e) - p_armor p) \<le> 0)" by (rule h(5))
  show "map e_damage_cooldown es' = [0.5]" if "\<not> died"
    using h(6) [OF that] by (simp add: reset_damage_cooldown_def)
  show "es' = [e]" "p_dead p'" if "died" using h(7) [OF that] by simp_all
next
  assume g: "colliderect (p_hitbox p) (e_hitbox e) \<and> e_damage_cooldown e \<le> 0
           \<and> \<not> p_is_invincible p \<and> \<not> p_dead p \<and> p_unlimited_health p"
  then have g': "colliderect (p_hitbox p) (e_hitbox e)" "e_damage_cooldown e \<le> 0"
    "\<not> p_is_invincible p" "\<not> p_dead p" "p_unlimited_health p" by simp_all
  note h = contact_cheat [OF g' assms]
  show "p_damage_taken p' = p_damage_taken p" "p_hp p' = p_hp p" "p_is_invincible p'"
    "\<not> died" using h by simp_all
  show "map e_damage_cooldown es' = [0.5]" using h by (simp add: reset_damage_cooldown_def)
next
  assume "p_is_invincible q"
  then show "handle_player_enemy_collision q es = (q, es, False)" by (rule collision_invincible)
next
  assume a: "p_is_invincible q \<and> dt < p_i_frames_timer q \<and> \<not> p_dead q"
  then have k: "p_is_invincible (update_i_frames dt q)"
    "p_damage_taken (update_i_frames dt q) = p_damage_taken q"
    "p_hp (update_i_frames dt q) = p_hp q"
    using update_i_frames_keeps [of q dt] by simp_all
  show "p_damage_taken (fst (tick_contacts dt (q, es))) = p_damage_taken q"
    "p_hp (fst (tick_contacts dt (q, es))) = p_hp q"
    using a k by (simp_all add: tick_contacts_def collision_invincible)
qed

theorem contact_damage_gated_witness:
  "p_damage_taken (fst (handle_player_enemy_collision new_player chasers_on_player)) = 10
   \<and> p_hp (fst (handle_player_enemy_collision new_player [hd chasers_on_player])) = 90
   \<and> map e_damage_cooldown
        (fst (snd (handle_player_enemy_collision new_player [hd chasers_on_player]))) = [0.5]
   \<and> p_damage_taken (fst (tick_contacts 0.1
        (fst (handle_player_enemy_collision new_player chasers_on_player),
         fst (snd (handle_player_enemy_collision new_player chasers_on_player))))) = 10
   \<and> p_hp (fst (tick_contacts 0.1
        (fst (handle_player_enemy_collision new_player chasers_on_player),
         fst (snd (handle_player_enemy_collision new_player chasers_on_player))))) = 90"
proof -
  let ?e = "hd chasers_on_player"
  let ?r = "handle_player_enemy_collision new_player [?e]"
  let ?r2 = "handle_player_enemy_collision new_player chasers_on_player"
  have r: "?r = (fst ?r, fst (snd ?r), snd (snd ?r))" by simp
  have g: "colliderect (p_hitbox new_player) (e_hitbox ?e)" "e_damage_cooldown ?e \<le> 0"
    "\<not> p_is_invincible new_player" "\<not> p_dead new_player" "\<not> p_unlimited_health new_player"
    "p_damage_taken new_player = 0" "p_hp new_player = 100" "p_armor new_player = 0"
    "e_damage ?e = 10"
    by code_simp+
  have q: "p_is_invincible (fst ?r2)" "(0.1::real) < p_i_frames_timer (fst ?r2)"
    "\<not> p_dead (fst ?r2)" "p_damage_taken (fst ?r2) = 10" "p_hp (fst ?r2) = 90"
    by code_simp+
  show ?thesis
    using contact_damage_gated [OF r, where q = "fst ?r2" and dt = "0.1"
        and es = "fst (snd ?r2)"] g q
    by simp
qed

text \<open>
  C7 as stated fails on a lethal hit: the damage is applied and the invincibility window
  opens, and the enemy's cooldown is not reset.
\<close>

theorem lethal_hit_no_cooldown_reset_counterexample:
  "colliderect (p_hitbox weak_player) (e_hitbox (hd chasers_on_player))
   \<and> can_damage (hd chasers_on_player) \<and> \<not> p_is_invincible weak_player
   \<and> (case handle_player_enemy_collision weak_player [hd chasers_on_player] of
        (p', es', died) \<Rightarrow>
          p_damage_taken p' = p_damage_taken weak_player + 10
          \<and> p_is_invincible p'
          \<and> map e_damage_cooldown es' = [0]
          \<and> map can_damage es' = [True])"
  by code_simp

section \<open>The garlic aura: one damage tick per enemy and tick interval\<close>

lemma tick_rate_kept:
  "ga_tick_rate (aura_update t a) = ga_tick_rate a"
  "ga_tick_rate (snd (can_damage_enemy e t a)) = ga_tick_rate a"
  by (simp_all add: aura_update_def can_damage_enemy_def split: option.split)

lemma can_damage_enemy_timer:
  "fst (can_damage_enemy e t a) \<Longrightarrow> ga_damage_timers (snd (can_damage_enemy e t a)) e = Some t"
  "\<not> fst (can_damage_enemy e t a) \<Longrightarrow> snd (can_damage_enemy e t a) = a"
  "e' \<noteq> e \<Longrightarrow> ga_damage_timers (snd (can_damage_enemy e t a)) e' = ga_damage_timers a e'"
  by (simp_all add: can_damage_enemy_def split: option.splits if_splits)

lemma can_damage_enemy_decision:
  "fst (can_damage_enemy e t a)
     = (case ga_damage_timers a e of None \<Rightarrow> True | Some v \<Rightarrow> ga_tick_rate a \<le> t - v)"
  by (simp add: can_damage_enemy_def split: option.split)

lemma aura_update_timer:
  "ga_damage_timers (aura_update t a) e
     = (case ga_damage_timers a e of
          None \<Rightarrow> None
        | Some v \<Rightarrow> if t - v < 2 * ga_tick_rate a then Some v else None)"
  by (simp add: aura_update_def mult.commute split: option.split)

lemma aura_run_times:
  "(t', e) \<in> set (aura_run a evs) \<Longrightarrow> t' \<in> event_time ` set evs"
  by (induction a evs rule: aura_run.induct) (auto split: if_splits)

lemma aura_run_gap:
  assumes "0 \<le> ga_tick_rate a" and "sorted (map event_time evs)"
    and "(t', e) \<in> set (aura_run a evs)" and "ga_damage_timers a e = Some v"
  shows "ga_tick_rate a \<le> t' - v"
  using assms
proof (induction a evs arbitrary: v rule: aura_run.induct)
  case (1 a)
  then show ?case by simp
next
  case (2 a t evs)
  have srt: "sorted (map event_time evs)" and ge: "\<forall>x \<in> set evs. t \<le> event_time x"
    using "2.prems"(2) by simp_all
  have c: "0 \<le> ga_tick_rate (aura_update t a)" using "2.prems"(1) by (simp add: tick_rate_kept)
  have mem: "(t', e) \<in> set (aura_run (aura_update t a) evs)" using "2.prems"(3) by simp
  show ?case
  proof (cases "t - v < 2 * ga_tick_rate a")
    case True
    then have "ga_damage_timers (aura_update t a) e = Some v"
      using "2.prems"(4) by (simp add: aura_update_timer)
    from "2.IH" [OF c srt mem this] show ?thesis by (simp add: tick_rate_kept)
  next
    case False
    have "t' \<in> event_time ` set evs" using mem by (rule aura_run_times)
    then have "t \<le> t'" using ge by auto
    then show ?thesis using False "2.prems"(1) by simp
  qed
next
  case (3 a e2 t evs)
  let ?a' = "snd (can_damage_enemy e2 t a)"
  have srt: "sorted (map event_time evs)" and ge: "\<forall>x \<in> set evs. t \<le> event_time x"
    using "3.prems"(2) by simp_all
  have c: "0 \<le> ga_tick_rate ?a'" using "3.prems"(1) by (simp add: tick_rate_kept)
  show ?case
  proof (cases "fst (can_damage_enemy e2 t a)")
    case True
    note hit = True
    show ?thesis
    proof (cases "e2 = e")
      case True
      have dec: "ga_tick_rate a \<le> t - v"
        using hit True "3.prems"(4) by (simp add: can_damage_enemy_decision)
      have tm: "ga_damage_timers ?a' e = Some t"
        using hit True can_damage_enemy_timer(1) by simp
      from "3.prems"(3) hit True
      consider "t' = t" | "(t', e) \<in> set (aura_run ?a' evs)" by auto
      then show ?thesis
      proof cases
        case 1
        then show ?thesis using dec by simp
      next
        case 2
        from "3.IH"(1) [OF hit c srt 2 tm] have "ga_tick_rate a \<le> t' - t"
          by (simp add: tick_rate_kept)
        then show ?thesis using dec "3.prems"(1) by simp
      qed
    next
      case False
      then have tm: "ga_damage_timers ?a' e = Some v"
        using "3.prems"(4) by (simp add: can_damage_enemy_timer(3))
      have mem: "(t', e) \<in> set (aura_run ?a' evs)" using "3.prems"(3) hit False by auto
      from "3.IH"(1) [OF hit c srt mem tm] show ?thesis by (simp add: tick_rate_kept)
    qed
  next
    case False
    then have same: "?a' = a" by (rule can_damage_enemy_timer(2))
    have mem: "(t', e) \<in> set (aura_run ?a' evs)" using "3.prems"(3) False by simp
    have tm: "ga_damage_timers ?a' e = Some v" using "3.prems"(4) same by simp
    from "3.IH"(2) [OF False c srt mem tm] show ?thesis by (simp add: tick_rate_kept)
  qed
qed

lemma aura_run_spaced:
  "0 \<le> ga_tick_rate a \<Longrightarrow> sorted (map event_time evs) \<Longrightarrow>
   spaced (ga_tick_rate a) (aura_run a evs)"
proof (induction a evs rule: aura_run.induct)
  case (1 a)
  then show ?case by simp
next
  case (2 a t evs)
  then show ?case by (simp add: tick_rate_kept)
next
  case (3 a e t evs)
  let ?a' = "snd (can_damage_enemy e t a)"
  have srt: "sorted (map event_time evs)" using "3.prems"(2) by simp
  have c: "0 \<le> ga_tick_rate ?a'" using "3.prems"(1) by (simp add: tick_rate_kept)
  show ?case
  proof (cases "fst (can_damage_enemy e t a)")
    case True
    have tm: "ga_damage_timers ?a' e = Some t" using True by (rule can_damage_enemy_timer(1))
    have "(case x of (t', e') \<Rightarrow> e' \<noteq> e \<or> ga_tick_rate a \<le> t' - t)"
      if x: "x \<in> set (aura_run ?a' evs)" for x
    proof -
      obtain t' e' where xe: "x = (t', e')" by (cases x)
      show ?thesis
      proof (cases "e' = e")
        case True
        then have "(t', e) \<in> set (aura_run ?a' evs)" using x xe by simp
        from aura_run_gap [OF c srt this tm] show ?thesis
          using xe by (simp add: tick_rate_kept)
      next
        case False
        then show ?thesis using xe by simp
      qed
    qed
    then have "list_all (\<lambda>(t', e'). e' \<noteq> e \<or> ga_tick_rate a \<le> t' - t) (aura_run ?a' evs)"
      unfolding list_all_iff by blast
    moreover have "spaced (ga_tick_rate a) (aura_run ?a' evs)"
      using "3.IH"(1) [OF True c srt] by (simp add: tick_rate_kept)
    ultimately show ?thesis using True by simp
  next
    case False
    show ?thesis using "3.IH"(2) [OF False c srt] False by (simp add: tick_rate_kept)
  qed
qed

text \<open>
  C8. For an aura with tick rate \<open>c \<ge> 0\<close> and any run of frames whose clock readings do
  not decrease, whichever enemies are in range in whichever frames: two damage events on
  the same enemy are at least \<open>c\<close> apart. Whether an enemy is damaged depends on its own
  timer alone, a damage tick of one enemy leaves the timers of the others as they were,
  and the aura's update drops an entry exactly when it is at least \<open>2c\<close> old.
\<close>

theorem garlic_tick_rate:
  assumes "0 \<le> ga_tick_rate a" and "sorted (map event_time evs)"
  shows "spaced (ga_tick_rate a) (aura_run a evs)
    \<and> fst (can_damage_enemy e t a)
        = (case ga_damage_timers a e of None \<Rightarrow> True | Some v \<Rightarrow> ga_tick_rate a \<le> t - v)
    \<and> (e' \<noteq> e \<longrightarrow>
         ga_damage_timers (snd (can_damage_enemy e t a)) e' = ga_damage_timers a e')
    \<and> ga_damage_timers (aura_update t a) e
        = (case ga_damage_timers a e of
             None \<Rightarrow> None
           | Some v \<Rightarrow> if t - v < 2 * ga_tick_rate a then Some v else None)"
  using aura_run_spaced [OF assms] can_damage_enemy_decision [of e t a]
    can_damage_enemy_timer(3) [of e' e t a] aura_update_timer [of t a e]
  by simp

theorem garlic_tick_rate_witness:
  "aura_run aura0 six_frames = [(0, 7), (0, 8), (0.5, 7), (0.5, 8)]
   \<and> spaced 0.5 (aura_run aura0 six_frames)
   \<and> ga_damage_timers (snd (can_damage_enemy 7 0 aura0)) 8 = None
   \<and> ga_damage_timers (aura_update 0.9 (snd (can_damage_enemy 7 0 aura0))) 7 = Some 0
   \<and> ga_damage_timers (aura_update 1 (snd (can_damage_enemy 7 0 aura0))) 7 = None"
proof -
  have a: "0 \<le> ga_tick_rate aura0" "ga_tick_rate aura0 = 0.5" by (simp_all add: aura0_def)
  have s: "sorted (map event_time six_frames)" by code_simp
  have r: "aura_run aura0 six_frames = [(0, 7), (0, 8), (0.5, 7), (0.5, 8)]" by code_simp
  have t: "ga_damage_timers (snd (can_damage_enemy 7 0 aura0)) 8 = None"
    "ga_damage_timers (aura_update 0.9 (snd (can_damage_enemy 7 0 aura0))) 7 = Some 0"
    "ga_damage_timers (aura_update 1 (snd (can_damage_enemy 7 0 aura0))) 7 = None"
    by (simp_all add: aura_update_def can_damage_enemy_def aura0_def)
  show ?thesis
    using garlic_tick_rate [OF a(1) s, of 7 0 8] a(2) r t by simp
qed

section \<open>Difficulty scaling of spawned enemies\<close>

lemma py_int_nonneg: "0 \<le> x \<Longrightarrow> py_int x = \<lfloor>x\<rfloor>"
  by (simp add: py_int_def)

lemma pow2_pos: "0 < pow2 e"
  by (simp add: pow2_def)

lemma rnd_even_ge_floor: "\<lfloor>q\<rfloor> \<le> rnd_even q"
  by (simp add: rnd_even_def Let_def)

lemma fl_nonneg: "0 \<le> x \<Longrightarrow> 0 \<le> fl x"
proof (cases "x = 0")
  case True
  then show ?thesis by (simp add: fl_def)
next
  case False
  assume "0 \<le> x"
  with False have pos: "0 < x" by simp
  define g where "g = pow2 (max (exponent \<bar>x\<bar>) (- 1022) - 52)"
  have g: "0 < g" unfolding g_def by (rule pow2_pos)
  have "0 \<le> \<bar>x\<bar> / g" using g by simp
  then have "0 \<le> \<lfloor>\<bar>x\<bar> / g\<rfloor>" by simp
  then have "0 \<le> rnd_even (\<bar>x\<bar> / g)" using rnd_even_ge_floor [of "\<bar>x\<bar> / g"] by linarith
  then have "0 \<le> sgn x * of_int (rnd_even (\<bar>x\<bar> / g)) * g" using pos g by simp
  then show ?thesis using False by (simp add: fl_def Let_def g_def)
qed

lemma exponent_ge_1:
  assumes "1 \<le> a"
  shows "0 \<le> exponent a" and "2 ^ nat (exponent a) \<le> a"
proof -
  let ?n = "nat \<lfloor>a\<rfloor>"
  have n: "0 < ?n" using assms by simp
  have k: "0 < floorlog 2 ?n" using n by (simp add: floorlog_def)
  have e: "exponent a = int (floorlog 2 ?n - 1)" using assms k by (simp add: exponent_def)
  show "0 \<le> exponent a" using e by simp
  have "2 ^ (floorlog 2 ?n - 1) \<le> ?n" using floorlog_bounds [of ?n 2] n by simp
  then have "(2::real) ^ (floorlog 2 ?n - 1) \<le> real ?n"
    by (metis of_nat_le_iff of_nat_numeral of_nat_power)
  also have "real ?n \<le> a" using assms by simp
  finally show "2 ^ nat (exponent a) \<le> a" using e by simp
qed

lemma fl_ge_1:
  assumes "1 \<le> x"
  shows "1 \<le> fl x"
proof -
  define e where "e = exponent x"
  have e0: "0 \<le> e" and le: "2 ^ nat e \<le> x"
    using exponent_ge_1 [OF assms] by (simp_all add: e_def)
  define g where "g = pow2 (e - 52)"
  have g: "0 < g" unfolding g_def by (rule pow2_pos)
  have pw: "2 ^ nat e = 2 ^ 52 * g"
  proof (cases "52 \<le> e")
    case True
    then have "nat e = 52 + nat (e - 52)" by simp
    then have "(2::real) ^ nat e = 2 ^ 52 * 2 ^ nat (e - 52)" by (metis power_add)
    moreover have "g = 2 ^ nat (e - 52)" using True by (simp add: g_def pow2_def)
    ultimately show ?thesis by (simp only:)
  next
    case False
    then have "52 = nat e + nat (52 - e)" using e0 by simp
    then have h: "(2::real) ^ 52 = 2 ^ nat e * 2 ^ nat (52 - e)" by (metis power_add)
    have "- (e - 52) = 52 - e" by simp
    then have gg: "g = 1 / 2 ^ nat (52 - e)" using False by (simp add: g_def pow2_def)
    have "(2::real) ^ nat e * 2 ^ nat (52 - e) * (1 / 2 ^ nat (52 - e)) = 2 ^ nat e" by simp
    then show ?thesis by (simp only: h gg)
  qed
  have "2 ^ 52 \<le> x / g" using le g pw by (simp add: pos_le_divide_eq)
  then have "2 ^ 52 \<le> \<lfloor>x / g\<rfloor>" by (simp add: le_floor_iff)
  then have "2 ^ 52 \<le> rnd_even (x / g)" using rnd_even_ge_floor [of "x / g"] by linarith
  then have "(2::real) ^ 52 \<le> of_int (rnd_even (x / g))"
    by (metis of_int_le_iff of_int_numeral of_int_power)
  then have "2 ^ 52 * g \<le> of_int (rnd_even (x / g)) * g" using g by simp
  moreover have "(1::real) \<le> 2 ^ nat e" by simp
  ultimately have "1 \<le> of_int (rnd_even (x / g)) * g" using pw by linarith
  moreover have "fl x = of_int (rnd_even (x / g)) * g"
    using assms e0 by (simp add: fl_def Let_def g_def e_def max_def)
  ultimately show ?thesis by simp
qed

lemma enemy_data_of_in: "enemy_data_of ty \<in> set (map snd ENEMY_DATA)"
proof (cases "map_of ENEMY_DATA ty")
  case None
  then show ?thesis by (simp add: enemy_data_of_def ENEMY_DATA_def)
next
  case (Some d)
  then have "(ty, d) \<in> set ENEMY_DATA" by (rule map_of_SomeD)
  then show ?thesis using Some by (force simp: enemy_data_of_def)
qed

lemma enemy_data_nonneg: "0 \<le> ed_hp (enemy_data_of ty)" "0 \<le> ed_damage (enemy_data_of ty)"
  using enemy_data_of_in [of ty] by (auto simp: ENEMY_DATA_def)

lemma enemy_data_of_chaser:
  "ty \<notin> set (map fst ENEMY_DATA) \<Longrightarrow> enemy_data_of ty = enemy_data_of ''chaser''"
  by (simp add: enemy_data_of_def map_of_eq_None_iff [symmetric] split: option.split
      del: map_of_eq_None_iff)

lemma create_enemy_stats:
  "e_max_hp (create_enemy ty eid pos c m) = py_int (fl (of_int (ed_hp (enemy_data_of ty)) * m))"
  "e_damage (create_enemy ty eid pos c m)
     = py_int (fl (of_int (ed_damage (enemy_data_of ty)) * fl (1 + fl (fl (m - 1) * 0.5))))"
  "e_hp (create_enemy ty eid pos c m) = of_int (e_max_hp (create_enemy ty eid pos c m))"
  by (simp_all add: create_enemy_def Enemy_init_def Let_def enemy_data_of_chaser)

lemma difficulty_ge_1: "0 \<le> t \<Longrightarrow> 1 \<le> get_difficulty_multiplier t"
proof -
  assume "0 \<le> t"
  then have "0 \<le> fl (t / 60)" by (intro fl_nonneg) simp
  moreover have "0 \<le> difficulty_hp_scale" unfolding difficulty_hp_scale_def
    by (intro fl_nonneg) simp
  ultimately have "0 \<le> fl (difficulty_hp_scale * fl (t / 60))" by (intro fl_nonneg) simp
  then show ?thesis unfolding get_difficulty_multiplier_def Let_def by (intro fl_ge_1) simp
qed

lemma scaled_nonneg:
  assumes "1 \<le> m" and "0 \<le> (b::int)"
  shows "0 \<le> fl (of_int b * m)" and "0 \<le> fl (of_int b * fl (1 + fl (fl (m - 1) * 0.5)))"
proof -
  show "0 \<le> fl (of_int b * m)" using assms by (intro fl_nonneg) simp
  have "0 \<le> fl (m - 1)" using assms by (intro fl_nonneg) simp
  then have "0 \<le> fl (fl (m - 1) * 0.5)" by (intro fl_nonneg) simp
  then have "1 \<le> fl (1 + fl (fl (m - 1) * 0.5))" by (intro fl_ge_1) simp
  then show "0 \<le> fl (of_int b * fl (1 + fl (fl (m - 1) * 0.5)))"
    using assms by (intro fl_nonneg) simp
qed

text \<open>
  C2 (as amended). For a spawn time \<open>t\<close> from 0 up to \<open>2^1000\<close> seconds, the difficulty
  multiplier is \<open>1 + 0.05 * (t/60)\<close> computed in double precision, each operation
  rounded, and it is at least 1. An enemy of the regular spawn has max HP
  \<open>baseHP * diff(t)\<close> and damage \<open>baseDamage * (1 + (diff(t) - 1) * 0.5)\<close>, computed in
  double precision and then truncated to an integer, not rounded; damage scales at half
  the rate of HP. A boss is created with \<open>1.5 * diff(t)\<close> in the place of \<open>diff(t)\<close>.
\<close>

theorem enemy_scaling_truncates:
  assumes "0 \<le> t" and "t \<le> 2 ^ 1000"
  shows "get_difficulty_multiplier t = fl (1 + fl (fl 0.05 * fl (t / 60)))
    \<and> 1 \<le> get_difficulty_multiplier t
    \<and> e_max_hp (spawn_enemy t eid pos c ty)
        = \<lfloor>fl (of_int (ed_hp (enemy_data_of ty)) * get_difficulty_multiplier t)\<rfloor>
    \<and> e_damage (spawn_enemy t eid pos c ty)
        = \<lfloor>fl (of_int (ed_damage (enemy_data_of ty))
               * fl (1 + fl (fl (get_difficulty_multiplier t - 1) * 0.5)))\<rfloor>
    \<and> e_max_hp (spawn_boss t eid pos c)
        = \<lfloor>fl (of_int (ed_hp (enemy_data_of ''boss'')) * fl (get_difficulty_multiplier t * 1.5))\<rfloor>
    \<and> e_damage (spawn_boss t eid pos c)
        = \<lfloor>fl (of_int (ed_damage (enemy_data_of ''boss''))
               * fl (1 + fl (fl (fl (get_difficulty_multiplier t * 1.5) - 1) * 0.5)))\<rfloor>"
proof -
  let ?m = "get_difficulty_multiplier t"
  have m: "1 \<le> ?m" using assms(1) by (rule difficulty_ge_1)
  have mb: "1 \<le> fl (?m * 1.5)" using m by (intro fl_ge_1) simp
  have "?m = fl (1 + fl (fl 0.05 * fl (t / 60)))"
    by (simp add: get_difficulty_multiplier_def difficulty_hp_scale_def)
  then show ?thesis
    using m scaled_nonneg [OF m enemy_data_nonneg(1) [of ty]]
      scaled_nonneg [OF m enemy_data_nonneg(2) [of ty]]
      scaled_nonneg [OF mb enemy_data_nonneg(1) [of "''boss''"]]
      scaled_nonneg [OF mb enemy_data_nonneg(2) [of "''boss''"]]
    by (simp add: spawn_enemy_def spawn_boss_def create_enemy_stats py_int_nonneg)
qed

theorem enemy_scaling_truncates_witness:
  "e_max_hp (spawn_enemy 216 1 (0, 0) (0, 0) ''chaser'') = 11
   \<and> e_damage (spawn_enemy 216 1 (0, 0) (0, 0) ''chaser'') = 10
   \<and> e_max_hp (spawn_enemy 168 1 (0, 0) (0, 0) ''tank'') = 56
   \<and> e_damage (spawn_enemy 168 1 (0, 0) (0, 0) ''tank'') = 21
   \<and> \<lfloor>of_int (ed_hp (enemy_data_of ''tank'')) * spec_diff 168\<rfloor> = 57
   \<and> e_max_hp (spawn_boss 8 2 (0, 0) (0, 0)) = 754
   \<and> e_damage (spawn_boss 8 2 (0, 0) (0, 0)) = 37"
proof -
  have t: "(0::real) \<le> 216" "(216::real) \<le> 2 ^ 1000" "(0::real) \<le> 168"
    "(168::real) \<le> 2 ^ 1000" "(0::real) \<le> 8" "(8::real) \<le> 2 ^ 1000"
    by simp_all
  have v: "\<lfloor>fl (of_int (ed_hp (enemy_data_of ''chaser'')) * get_difficulty_multiplier 216)\<rfloor> = 11"
    "\<lfloor>fl (of_int (ed_damage (enemy_data_of ''chaser''))
               * fl (1 + fl (fl (get_difficulty_multiplier 216 - 1) * 0.5)))\<rfloor> = 10"
    "\<lfloor>fl (of_int (ed_hp (enemy_data_of ''tank'')) * get_difficulty_multiplier 168)\<rfloor> = 56"
    "\<lfloor>fl (of_int (ed_damage (enemy_data_of ''tank''))
               * fl (1 + fl (fl (get_difficulty_multiplier 168 - 1) * 0.5)))\<rfloor> = 21"
    "\<lfloor>of_int (ed_hp (enemy_data_of ''tank'')) * spec_diff 168\<rfloor> = 57"
    "\<lfloor>fl (of_int (ed_hp (enemy_data_of ''boss'')) * fl (get_difficulty_multiplier 8 * 1.5))\<rfloor>
       = 754"
    "\<lfloor>fl (of_int (ed_damage (enemy_data_of ''boss''))
               * fl (1 + fl (fl (fl (get_difficulty_multiplier 8 * 1.5) - 1) * 0.5)))\<rfloor> = 37"
    by code_simp+
  note a = enemy_scaling_truncates [OF t(1,2), of 1 "(0, 0)" "(0, 0)" "''chaser''", unfolded v]
  note b = enemy_scaling_truncates [OF t(3,4), of 1 "(0, 0)" "(0, 0)" "''tank''", unfolded v]
  note c = enemy_scaling_truncates [OF t(5,6), of 2 "(0, 0)" "(0, 0)" "''chaser''", unfolded v]
  show ?thesis using a b c v(5) by simp
qed

text \<open>
  C2 as stated fails: a chaser spawned at \<open>t = 216\<close> has 11 max HP and 10 damage where
  rounding \<open>11.8\<close> and \<open>10.9\<close> gives 12 and 11, and a boss spawned at \<open>t = 600\<close> has
  1125 max HP where \<open>round(500 * diff(600))\<close> is 750.
\<close>

theorem enemy_scaling_round_counterexample:
  "e_max_hp (spawn_enemy 216 1 (0, 0) (0, 0) ''chaser'') = 11
   \<and> round (of_int (ed_hp (enemy_data_of ''chaser'')) * spec_diff 216) = 12
   \<and> round (fl (of_int (ed_hp (enemy_data_of ''chaser'')) * get_difficulty_multiplier 216)) = 12
   \<and> e_damage (spawn_enemy 216 1 (0, 0) (0, 0) ''chaser'') = 10
   \<and> round (of_int (ed_damage (enemy_data_of ''chaser'')) * (1 + (spec_diff 216 - 1) * 0.5)) = 11
   \<and> e_max_hp (spawn_boss 600 2 (0, 0) (0, 0)) = 1125
   \<and> round (of_int (ed_hp (enemy_data_of ''boss'')) * spec_diff 600) = 750"
  by code_simp



section \<open>Drops on enemy death\<close>

lemma spawn_xp_gem_result:
  "map gem_of (fst (spawn_xp_gem pos v us g)) = map gem_of g @ [Some (pos, gem_tier v, v)]"
  "snd (spawn_xp_gem pos v us g) = drop 1 us"
  by (simp_all add: spawn_xp_gem_def ExperienceGem_init_def uniform_def random_random_def
      split: list.split prod.split)

lemma update_enemy_deaths_gems:
  "map gem_of (fst (update_enemy_deaths ds us g))
     = map gem_of g
       @ map (\<lambda>info. Some (di_pos info, gem_tier (di_xp_value info), di_xp_value info)) ds
   \<and> snd (update_enemy_deaths ds us g) = drop (length ds) us"
proof (induction ds arbitrary: us g)
  case Nil
  then show ?case by simp
next
  case (Cons info ds)
  obtain g1 us1 where r: "spawn_xp_gem (di_pos info) (di_xp_value info) us g = (g1, us1)"
    by (cases "spawn_xp_gem (di_pos info) (di_xp_value info) us g")
  have g1: "map gem_of g1
      = map gem_of g @ [Some (di_pos info, gem_tier (di_xp_value info), di_xp_value info)]"
    and us1: "us1 = drop 1 us"
    using spawn_xp_gem_result [of "di_pos info" "di_xp_value info" us g] r by simp_all
  show ?case using Cons.IH [of us1 g1] r g1 us1 by simp
qed

text \<open>
  C1. The tick spawns exactly one gem for each dead enemy, at the enemy's last position
  and with the tier of its value, and nothing else: it makes one draw for each death,
  the gem's animation phase, and neither the health-pickup roll nor the chest roll.
  \<^verbatim>\<open>spawn_enemy_drops\<close>, which makes both rolls, is not called by the tick; for the same
  dead enemy and draws under which both rolls succeed it adds a health pickup and a
  chest where the tick adds the gem alone.
\<close>

theorem tick_spawns_gems_only:
  "map gem_of (fst (update_enemy_deaths ds us g))
     = map gem_of g
       @ map (\<lambda>info. Some (di_pos info, gem_tier (di_xp_value info), di_xp_value info)) ds
   \<and> snd (update_enemy_deaths ds us g) = drop (length ds) us
   \<and> update_enemy_deaths [get_drop_info dead_chaser] lucky_draws []
       = ([ExperienceGem (300, 400) ''small'' 1 0], [0, 0.5, 0.5, 0, 0.5, 0.5])
   \<and> spawn_enemy_drops dead_chaser lucky_draws []
       = ([ExperienceGem (300, 400) ''small'' 1 0, HealthPickup (300, 400) 20,
           Chest (300, 400)], [])"
proof -
  have a: "update_enemy_deaths [get_drop_info dead_chaser] lucky_draws []
       = ([ExperienceGem (300, 400) ''small'' 1 0], [0, 0.5, 0.5, 0, 0.5, 0.5])"
    by code_simp
  have b: "spawn_enemy_drops dead_chaser lucky_draws []
       = ([ExperienceGem (300, 400) ''small'' 1 0, HealthPickup (300, 400) 20,
           Chest (300, 400)], [])"
    by code_simp
  show ?thesis using a b update_enemy_deaths_gems [of ds us g] by simp
qed

end
